theory Spec2Isabelle
  imports Main "HOL-Library.AList"
begin

section \<open>Text primitives used by the interpreter\<close>

text \<open>
  Source lines are modelled as \<open>string\<close>: texts over the code points below 256. White space
  is what \<open>str.isspace\<close> accepts there; \<open>str.strip\<close>, \<open>str.split()\<close> and the regular
  expression class \<open>\s\<close> all use it.
\<close>

definition is_space :: "char \<Rightarrow> bool" where
  "is_space c =
     (let n = (of_char c :: nat) in
      n = 32 \<or> (9 \<le> n \<and> n \<le> 13) \<or> (28 \<le> n \<and> n \<le> 31) \<or> n = 133 \<or> n = 160)"

definition is_ident_start :: "char \<Rightarrow> bool" where
  "is_ident_start c =
     (let n = (of_char c :: nat) in (65 \<le> n \<and> n \<le> 90) \<or> (97 \<le> n \<and> n \<le> 122) \<or> n = 95)"

definition is_ident_char :: "char \<Rightarrow> bool" where
  "is_ident_char c =
     (let n = (of_char c :: nat) in is_ident_start c \<or> (48 \<le> n \<and> n \<le> 57))"

definition strip :: "string \<Rightarrow> string" where
  "strip s = rev (dropWhile is_space (rev (dropWhile is_space s)))"

definition startswith :: "string \<Rightarrow> string \<Rightarrow> bool" where
  "startswith s p = (take (length p) s = p)"

definition endswith :: "string \<Rightarrow> string \<Rightarrow> bool" where
  "endswith s p = (length p \<le> length s \<and> drop (length s - length p) s = p)"

text \<open>The test \<open>p in s\<close> on strings.\<close>

fun contains_sub :: "string \<Rightarrow> string \<Rightarrow> bool" where
  "contains_sub [] p = (p = [])"
| "contains_sub (c # cs) p = (startswith (c # cs) p \<or> contains_sub cs p)"

text \<open>\<open>s.split(c)\<close>, \<open>s.split(c, 1)\<close> (\<open>None\<close> when \<open>c\<close> does not occur, where the
  two-name unpacking of the source raises \<open>ValueError\<close>) and \<open>s.split()\<close>.\<close>

fun split_on :: "char \<Rightarrow> string \<Rightarrow> string list" where
  "split_on c [] = [[]]"
| "split_on c (x # xs) =
     (if x = c then [] # split_on c xs
      else (case split_on c xs of [] \<Rightarrow> [[x]] | r # rs \<Rightarrow> (x # r) # rs))"

fun split_first :: "char \<Rightarrow> string \<Rightarrow> (string \<times> string) option" where
  "split_first c [] = None"
| "split_first c (x # xs) =
     (if x = c then Some ([], xs)
      else map_option (\<lambda>(a, b). (x # a, b)) (split_first c xs))"

fun split_ws :: "string \<Rightarrow> string \<Rightarrow> string list" where
  "split_ws [] cur = (if cur = [] then [] else [cur])"
| "split_ws (c # cs) cur =
     (if is_space c then (if cur = [] then split_ws cs [] else cur # split_ws cs [])
      else split_ws cs (cur @ [c]))"

text \<open>Decimal rendering of the line numbers and counts that appear in diagnostics.\<close>

fun show_nat :: "nat \<Rightarrow> string" where
  "show_nat n =
     (if n < 10 then [char_of (48 + n)] else show_nat (n div 10) @ [char_of (48 + n mod 10)])"

declare show_nat.simps [simp del]

subsection \<open>Inline comments\<close>

text \<open>
  \<open>strip_inline_comments\<close> is \<open>re.sub(r'(?<!\$)\{.*?\}', '', line)\<close>: every brace
  group that is not preceded by a dollar sign is removed; the dot does not match a newline.
\<close>

fun find_close :: "string \<Rightarrow> string option" where
  "find_close [] = None"
| "find_close (c # cs) =
     (if c = CHR ''}'' then Some cs else if c = CHR 0x0A then None else find_close cs)"

lemma find_close_length: "find_close cs = Some r \<Longrightarrow> length r < Suc (length cs)"
  by (induction cs) (auto split: if_splits)

function strip_comments_from :: "char option \<Rightarrow> string \<Rightarrow> string" where
  "strip_comments_from prev [] = []"
| "strip_comments_from prev (c # cs) =
     (if c = CHR ''{'' \<and> prev \<noteq> Some (CHR ''$'') then
        (case find_close cs of
           Some r \<Rightarrow> strip_comments_from (Some (CHR ''}'')) r
         | None \<Rightarrow> c # strip_comments_from (Some c) cs)
      else c # strip_comments_from (Some c) cs)"
  by pat_completeness auto
termination
  by (relation "measure (\<lambda>(p, s). length s)") (auto dest: find_close_length)

definition strip_inline_comments :: "string \<Rightarrow> string" where
  "strip_inline_comments line = strip_comments_from None line"

subsection \<open>The fixed regular expressions\<close>

text \<open>The first \<open>${...}\<close> group of \<open>r'\$\{([^{}]*?)\}'\<close>: text before, expression, text after.\<close>

fun interp_body :: "string \<Rightarrow> (string \<times> string) option" where
  "interp_body [] = None"
| "interp_body (c # cs) =
     (if c = CHR ''}'' then Some ([], cs)
      else if c = CHR ''{'' then None
      else map_option (\<lambda>(e, r). (c # e, r)) (interp_body cs))"

fun find_interp :: "string \<Rightarrow> (string \<times> string \<times> string) option" where
  "find_interp [] = None"
| "find_interp (c # cs) =
     (case (if c = CHR ''$'' \<and> startswith cs ''{'' then interp_body (drop 1 cs) else None) of
        Some (e, r) \<Rightarrow> Some ([], e, r)
      | None \<Rightarrow> map_option (\<lambda>(p, e, r). (c # p, e, r)) (find_interp cs))"

definition take_ident :: "string \<Rightarrow> (string \<times> string) option" where
  "take_ident s =
     (case s of
        [] \<Rightarrow> None
      | c # cs \<Rightarrow>
          if is_ident_start c
          then Some (c # takeWhile is_ident_char cs, dropWhile is_ident_char cs)
          else None)"

text \<open>\<open>r'^([a-zA-Z_][a-zA-Z0-9_]*)\((.*)\)$'\<close> on a stripped string: name and argument text.\<close>

definition call_match :: "string \<Rightarrow> (string \<times> string) option" where
  "call_match s =
     (case take_ident s of
        None \<Rightarrow> None
      | Some (name, rest) \<Rightarrow>
          (case rest of
             [] \<Rightarrow> None
           | c # r \<Rightarrow>
               if c = CHR ''('' \<and> r \<noteq> [] \<and> last r = CHR '')'' \<and> CHR 0x0A \<notin> set (butlast r)
               then Some (name, butlast r) else None))"

text \<open>\<open>r'^(.*)\.([a-zA-Z_][a-zA-Z0-9_]*)\((.*)\)$'\<close>: the greedy first group takes the last
  dot after which the rest of the line still matches.\<close>

definition method_match :: "string \<Rightarrow> (string \<times> string \<times> string) option" where
  "method_match s =
     (case filter (\<lambda>p. s ! p = CHR ''.'' \<and> CHR 0x0A \<notin> set (take p s)
                         \<and> call_match (drop (Suc p) s) \<noteq> None) (rev [0..<length s]) of
        [] \<Rightarrow> None
      | p # _ \<Rightarrow>
          (case call_match (drop (Suc p) s) of
             None \<Rightarrow> None
           | Some (m, a) \<Rightarrow> Some (take p s, m, a)))"

text \<open>A text that begins with a white-space character (one step of \<open>\s+\<close>).\<close>

definition startswith_space :: "string \<Rightarrow> bool" where
  "startswith_space s = (case s of [] \<Rightarrow> False | c # cs \<Rightarrow> is_space c)"

text \<open>\<open>r'^steal\s+([a-zA-Z_][a-zA-Z0-9_]*)\s+from\s+([^\s]+)$'\<close>: symbol and module path.\<close>

definition steal_match :: "string \<Rightarrow> (string \<times> string) option" where
  "steal_match s =
     (if startswith s ''steal'' \<and> startswith_space (drop 5 s)
      then (case take_ident (dropWhile is_space (drop 5 s)) of
              None \<Rightarrow> None
            | Some (symbol, r2) \<Rightarrow>
                if startswith_space r2 \<and> startswith (dropWhile is_space r2) ''from''
                   \<and> startswith_space (drop 4 (dropWhile is_space r2))
                then (let p = dropWhile is_space (drop 4 (dropWhile is_space r2)) in
                        if p \<noteq> [] \<and> list_all (\<lambda>c. \<not> is_space c) p
                        then Some (symbol, p) else None)
                else None)
      else None)"

text \<open>\<open>re.match(r'KW\s+([a-zA-Z_][a-zA-Z0-9_]*)\s*\((.*)\)', s)\<close> for the keywords \<open>new\<close> and
  \<open>func\<close>: name, and the text up to the last closing parenthesis of the line.\<close>

definition keyword_call_match :: "string \<Rightarrow> string \<Rightarrow> (string \<times> string) option" where
  "keyword_call_match kw s =
     (if startswith s kw \<and> startswith_space (drop (length kw) s)
      then (case take_ident (dropWhile is_space (drop (length kw) s)) of
              None \<Rightarrow> None
            | Some (name, r2) \<Rightarrow>
                (case dropWhile is_space r2 of
                   [] \<Rightarrow> None
                 | c # r3 \<Rightarrow>
                     if c = CHR ''(''
                     then (let seg = takeWhile (\<lambda>x. x \<noteq> CHR 0x0A) r3 in
                             if CHR '')'' \<in> set seg
                             then Some (name, rev (tl (dropWhile (\<lambda>x. x \<noteq> CHR '')'') (rev seg))))
                             else None)
                     else None))
      else None)"

text \<open>\<open>[v.strip() for v in arg_str.split(',')] if arg_str else []\<close>\<close>

definition split_args :: "string \<Rightarrow> string list" where
  "split_args arg_str = (if arg_str = [] then [] else map strip (split_on (CHR '','') arg_str))"

text \<open>The slice \<open>lines[a:b]\<close>.\<close>

definition slice :: "'a list \<Rightarrow> nat \<Rightarrow> nat \<Rightarrow> 'a list" where
  "slice xs a b = take (b - a) (drop a xs)"

section \<open>Data model\<close>

text \<open>
  Values are the absent value, booleans, integers, strings and references into a store of
  mutable objects. Lists and dictionaries built by the host evaluator are store cells, so that
  copying an environment copies references only. Dictionaries are association lists in
  insertion order. Floating-point numbers, type objects and the dictionary object that holds an
  instance's attributes are outside the value universe.

  An \<open>MSlashObject\<close> is a store cell with its two own attributes. \<open>class_name\<close> holds the name
  given at creation, any value after \<open>__setattr__('class_name', v)\<close>, and nothing after
  \<open>__delattr__('class_name')\<close>. \<open>attributes\<close> holds the dictionary of the instance attributes,
  any value after \<open>__setattr__('attributes', v)\<close>, and nothing after \<open>__delattr__\<close>.
\<close>

datatype pyval = VNone | VBool bool | VInt int | VStr string | VRef nat

datatype slot = Attributes "(string \<times> pyval) list" | Rebound pyval | Unset

datatype cell =
    Instance "pyval option" slot
  | PyList "pyval list"
  | PyDict "(pyval \<times> pyval) list"

type_synonym env = "(string \<times> pyval) list"
type_synonym heap = "cell list"

record func_info =
  args :: "string list"
  body :: "string list"

record class_info =
  methods :: "(string \<times> func_info) list"

text \<open>The process state: the two global registries, the object store and the console.
  \<open>stdout\<close> is the sequence of chunks written so far, \<open>stdin\<close> the lines not yet read.
  The debug switch keeps its initial value \<open>False\<close>: \<open>_dbg\<close> writes nothing, but its argument
  is still formatted at every call.\<close>

record state =
  FUNCTIONS :: "(string \<times> func_info) list"
  CLASSES :: "(string \<times> class_info) list"
  heap :: heap
  stdout :: "string list"
  stdin :: "string list"

text \<open>Exceptions that can travel through the interpreter. \<open>SystemExit\<close> and
  \<open>KeyboardInterrupt\<close> do not derive from \<open>Exception\<close>; the others do. \<open>KeyError\<close> carries the
  text of the missing key, the others their message. \<open>ValueError\<close> stands for that class and
  its subclasses, \<open>Exception\<close> for every class derived from \<open>Exception\<close> that is not listed.\<close>

datatype py_exc =
    SystemExit | KeyboardInterrupt
  | EOFError | FileNotFoundError | KeyError string
  | AttributeError string | ValueError string | TypeError string | Exception string

fun is_Exception :: "py_exc \<Rightarrow> bool" where
  "is_Exception SystemExit = False"
| "is_Exception KeyboardInterrupt = False"
| "is_Exception e = True"

fun is_ValueError :: "py_exc \<Rightarrow> bool" where
  "is_ValueError (ValueError m) = True"
| "is_ValueError e = False"

fun exc_str :: "py_exc \<Rightarrow> string" where
  "exc_str EOFError = ''EOF when reading a line''"
| "exc_str (KeyError k) = k"
| "exc_str (AttributeError m) = m"
| "exc_str (ValueError m) = m"
| "exc_str (TypeError m) = m"
| "exc_str (Exception m) = m"
| "exc_str e = []"

text \<open>
  The result of a computation: a value and the state reached, an exception and the state
  reached, or no result: the fuel is used up, or the host evaluator does not return.
\<close>

datatype 'a res = Ret 'a state | Raise py_exc state | NoResult

definition bind_res :: "'a res \<Rightarrow> ('a \<Rightarrow> state \<Rightarrow> 'b res) \<Rightarrow> 'b res" where
  "bind_res r f = (case r of Ret a s \<Rightarrow> f a s | Raise e s \<Rightarrow> Raise e s | NoResult \<Rightarrow> NoResult)"

text \<open>
  The host language's operations that the interpreter delegates to are parameters:
  \<^item> \<open>eval(expression, {"__builtins__": ...}, locals)\<close>, which may read and mutate store cells,
    may raise, and may not return (\<open>None\<close>);
  \<^item> \<open>str(value)\<close>, which raises when the \<open>__repr__\<close> of an instance does;
  \<^item> \<open>int(text)\<close> (\<open>None\<close> for \<open>ValueError\<close>);
  \<^item> on a value \<open>v\<close> that some evaluation has put in the place of an instance's attribute
    dictionary: \<open>locals.update(v)\<close>, \<open>v[key] = value\<close>, \<open>key in v\<close> and \<open>v[key]\<close>;
  \<^item> reading the lines of a file.
\<close>

datatype builtins = Allowed_builtins | No_builtins

record host =
  py_eval :: "builtins \<Rightarrow> string \<Rightarrow> env \<Rightarrow> heap \<Rightarrow> ((py_exc + pyval) \<times> heap) option"
  py_str :: "heap \<Rightarrow> pyval \<Rightarrow> py_exc + string"
  py_int :: "string \<Rightarrow> int option"
  py_update :: "heap \<Rightarrow> env \<Rightarrow> pyval \<Rightarrow> py_exc + env"
  py_setitem :: "heap \<Rightarrow> pyval \<Rightarrow> string \<Rightarrow> pyval \<Rightarrow> py_exc + heap"
  py_contains :: "heap \<Rightarrow> pyval \<Rightarrow> string \<Rightarrow> py_exc + bool"
  py_getitem :: "heap \<Rightarrow> pyval \<Rightarrow> string \<Rightarrow> py_exc + pyval"
  read_lines :: "string \<Rightarrow> py_exc + string list"

type_synonym executor = "string list \<Rightarrow> env \<Rightarrow> state \<Rightarrow> (pyval \<times> env) res"

subsection \<open>Console, dictionaries and the object store\<close>

definition write_out :: "string \<Rightarrow> state \<Rightarrow> state" where
  "write_out s st = st\<lparr>stdout := stdout st @ [s]\<rparr>"

definition print_line :: "string \<Rightarrow> state \<Rightarrow> state" where
  "print_line s st = write_out (s @ [CHR 0x0A]) st"

text \<open>A text between single quotes, as the diagnostics show names.\<close>

definition quoted :: "string \<Rightarrow> string" where
  "quoted s = [CHR 0x27] @ s @ [CHR 0x27]"

definition dict_update :: "('k \<times> 'v) list \<Rightarrow> ('k \<times> 'v) list \<Rightarrow> ('k \<times> 'v) list" where
  "dict_update d ps = fold (\<lambda>(k, v). AList.update k v) ps d"

definition dict_of_pairs :: "('k \<times> 'v) list \<Rightarrow> ('k \<times> 'v) list" where
  "dict_of_pairs ps = dict_update [] ps"

text \<open>A host result as a result of the interpreter, in an unchanged state.\<close>

definition lift_host :: "py_exc + 'a \<Rightarrow> state \<Rightarrow> 'a res" where
  "lift_host r st = (case r of Inl e \<Rightarrow> Raise e st | Inr a \<Rightarrow> Ret a st)"

text \<open>\<open>isinstance(v, MSlashObject)\<close>: the address and the two own attributes.\<close>

definition get_instance :: "heap \<Rightarrow> pyval \<Rightarrow> (nat \<times> pyval option \<times> slot) option" where
  "get_instance hp v =
     (case v of
        VRef a \<Rightarrow>
          (if a < length hp
           then (case hp ! a of Instance cn attrs \<Rightarrow> Some (a, cn, attrs) | _ \<Rightarrow> None)
           else None)
      | _ \<Rightarrow> None)"

text \<open>The message of the \<open>AttributeError\<close> for a missing own attribute.\<close>

definition no_attribute :: "string \<Rightarrow> py_exc" where
  "no_attribute name =
     AttributeError (quoted ''MSlashObject'' @ '' object has no attribute '' @ quoted name)"

text \<open>\<open>obj.attributes[name] = v\<close> on the instance at address \<open>a\<close>.\<close>

definition set_attr :: "host \<Rightarrow> nat \<Rightarrow> string \<Rightarrow> pyval \<Rightarrow> state \<Rightarrow> unit res" where
  "set_attr h a name v st =
     (case get_instance (heap st) (VRef a) of
        None \<Rightarrow> Ret () st
      | Some (_, cn, attrs) \<Rightarrow>
          (case attrs of
             Attributes d \<Rightarrow>
               Ret () (st\<lparr>heap := (heap st)[a := Instance cn (Attributes (AList.update name v d))]\<rparr>)
           | Rebound w \<Rightarrow>
               (case py_setitem h (heap st) w name v of
                  Inl e \<Rightarrow> Raise e st
                | Inr hp \<Rightarrow> Ret () (st\<lparr>heap := hp\<rparr>))
           | Unset \<Rightarrow> Raise (no_attribute ''attributes'') st))"

text \<open>\<open>obj.class_name\<close>: the own attribute, or else what \<open>__getattr__\<close> finds under that name in
  the attributes.\<close>

definition read_class_name :: "host \<Rightarrow> heap \<Rightarrow> pyval option \<Rightarrow> slot \<Rightarrow> py_exc + pyval" where
  "read_class_name h hp cn attrs =
     (case cn of
        Some v \<Rightarrow> Inr v
      | None \<Rightarrow>
          (case attrs of
             Unset \<Rightarrow> Inl (no_attribute ''attributes'')
           | Attributes d \<Rightarrow>
               (case map_of d ''class_name'' of
                  Some v \<Rightarrow> Inr v
                | None \<Rightarrow> Inl (AttributeError ''class_name''))
           | Rebound w \<Rightarrow>
               (case py_contains h hp w ''class_name'' of
                  Inl e \<Rightarrow> Inl e
                | Inr found \<Rightarrow>
                    if found then py_getitem h hp w ''class_name''
                    else Inl (AttributeError ''class_name''))))"

text \<open>\<open>CLASSES.get(key)\<close>: the keys of the registry are strings; a list or a dictionary cannot
  be hashed.\<close>

definition classes_get ::
  "(string \<times> class_info) list \<Rightarrow> heap \<Rightarrow> pyval \<Rightarrow> py_exc + class_info option" where
  "classes_get classes hp key =
     (case key of
        VStr s \<Rightarrow> Inr (map_of classes s)
      | VRef a \<Rightarrow>
          (if a < length hp
           then (case hp ! a of
                   Instance cn attrs \<Rightarrow> Inr None
                 | PyList xs \<Rightarrow> Inl (TypeError (''unhashable type: '' @ quoted ''list''))
                 | PyDict kv \<Rightarrow> Inl (TypeError (''unhashable type: '' @ quoted ''dict'')))
           else Inr None)
      | _ \<Rightarrow> Inr None)"

text \<open>Truthiness, as in \<open>if result:\<close>.\<close>

definition truthy :: "heap \<Rightarrow> pyval \<Rightarrow> bool" where
  "truthy hp v =
     (case v of
        VNone \<Rightarrow> False
      | VBool b \<Rightarrow> b
      | VInt i \<Rightarrow> i \<noteq> 0
      | VStr s \<Rightarrow> s \<noteq> []
      | VRef a \<Rightarrow>
          (if a < length hp
           then (case hp ! a of Instance cn attrs \<Rightarrow> True | PyList xs \<Rightarrow> xs \<noteq> [] | PyDict kv \<Rightarrow> kv \<noteq> [])
           else True))"

text \<open>The argument of \<open>_dbg\<close> is an f-string: the values in it are formatted with \<open>str\<close>, in
  order, before \<open>_dbg\<close> is entered and drops the text.\<close>

fun dbg :: "host \<Rightarrow> pyval list \<Rightarrow> state \<Rightarrow> unit res" where
  "dbg h [] st = Ret () st"
| "dbg h (v # vs) st =
     (case py_str h (heap st) v of
        Inl e \<Rightarrow> Raise e st
      | Inr s \<Rightarrow> dbg h vs st)"

section \<open>Expression Evaluator and Interpolator\<close>

text \<open>The locals handed to the host: a copy of the variables, with the attributes of
  \<open>this\<close> laid over it when \<open>this\<close> is bound to an instance. These are the statements of
  \<open>safe_eval\<close> before its \<open>try\<close>.\<close>

definition eval_locals :: "host \<Rightarrow> env \<Rightarrow> heap \<Rightarrow> py_exc + env" where
  "eval_locals h variables hp =
     (case map_of variables ''this'' of
        None \<Rightarrow> Inr variables
      | Some this \<Rightarrow>
          (case get_instance hp this of
             None \<Rightarrow> Inr variables
           | Some (_, _, attrs) \<Rightarrow>
               (case attrs of
                  Attributes d \<Rightarrow> Inr (dict_update variables d)
                | Rebound w \<Rightarrow> py_update h hp variables w
                | Unset \<Rightarrow> Inl (no_attribute ''attributes''))))"

text \<open>\<open>try: return eval(...)  except Exception: return None\<close>\<close>

definition safe_eval :: "host \<Rightarrow> string \<Rightarrow> env \<Rightarrow> state \<Rightarrow> pyval res" where
  "safe_eval h expression variables st =
     (case eval_locals h variables (heap st) of
        Inl e \<Rightarrow> Raise e st
      | Inr locals \<Rightarrow>
          (case py_eval h Allowed_builtins expression locals (heap st) of
             None \<Rightarrow> NoResult
           | Some (Inr v, hp) \<Rightarrow> Ret v (st\<lparr>heap := hp\<rparr>)
           | Some (Inl e, hp) \<Rightarrow>
               if is_Exception e then Ret VNone (st\<lparr>heap := hp\<rparr>) else Raise e (st\<lparr>heap := hp\<rparr>)))"

text \<open>The \<open>while\<close> loop of \<open>substitute_vars\<close> may run forever (a value whose text is again an
  interpolation of itself), so each replacement consumes one unit of fuel.\<close>

fun substitute_vars :: "host \<Rightarrow> nat \<Rightarrow> string \<Rightarrow> env \<Rightarrow> state \<Rightarrow> string res" where
  "substitute_vars h 0 line variables st =
     (case find_interp line of None \<Rightarrow> Ret line st | Some m \<Rightarrow> NoResult)"
| "substitute_vars h (Suc k) line variables st =
     (case find_interp line of
        None \<Rightarrow> Ret line st
      | Some (before, expression, after) \<Rightarrow>
          bind_res (safe_eval h expression variables st)
            (\<lambda>v st1.
               if v \<noteq> VNone
               then bind_res (lift_host (py_str h (heap st1) v) st1)
                      (\<lambda>replacement st2.
                         substitute_vars h k (before @ replacement @ after) variables st2)
               else Ret line
                      (print_line (''Warning: Could not evaluate nested expression ''
                                     @ quoted (''$'' @ expression) @ ''.'') st1)))"

text \<open>\<open>[safe_eval(substitute_vars(v, variables), variables) for v in arg_values_raw]\<close>\<close>

fun eval_args :: "host \<Rightarrow> nat \<Rightarrow> string list \<Rightarrow> env \<Rightarrow> state \<Rightarrow> pyval list res" where
  "eval_args h k [] variables st = Ret [] st"
| "eval_args h k (v # vs) variables st =
     bind_res (substitute_vars h k v variables st)
       (\<lambda>text st1.
          bind_res (safe_eval h text variables st1)
            (\<lambda>x st2.
               bind_res (eval_args h k vs variables st2)
                 (\<lambda>xs st3. Ret (x # xs) st3)))"

section \<open>Preprocessor and Class Body Parser\<close>

text \<open>
  The loop of \<open>preprocess_class_body\<close>, with the local variables of the source as arguments
  (\<open>found\<close> is the dictionary \<open>methods\<close> under construction).
  When the \<open>func\<close> line does not match the pattern, \<open>method_name\<close> and \<open>method_args\<close> keep their
  previous values. A method stored while \<open>method_name\<close> is still \<open>None\<close> sits under a key that
  no lookup (always by a text) can reach, so it is not recorded.
\<close>

fun class_body_loop ::
  "string list \<Rightarrow> (string \<times> func_info) list \<Rightarrow> bool \<Rightarrow> string option \<Rightarrow> string list
     \<Rightarrow> string list \<Rightarrow> int \<Rightarrow> (string \<times> func_info) list" where
  "class_body_loop [] found in_method method_name method_args method_body nest_level = found"
| "class_body_loop (line # rest) found in_method method_name method_args method_body nest_level =
     (let clean_line = strip (strip_inline_comments line) in
      if startswith clean_line ''func '' then
        (if \<not> in_method then
           (case keyword_call_match ''func'' clean_line of
              Some (name, arg_str) \<Rightarrow>
                class_body_loop rest found True (Some name) (split_args arg_str) [] 0
            | None \<Rightarrow>
                class_body_loop rest found True method_name method_args [] 0)
         else
           class_body_loop rest found in_method method_name method_args
             (method_body @ [line]) (nest_level + 1))
      else if clean_line = ''endfunc'' then
        (if in_method \<and> nest_level = 0 then
           class_body_loop rest
             (case method_name of
                Some n \<Rightarrow> AList.update n \<lparr>args = method_args, body = method_body\<rparr> found
              | None \<Rightarrow> found)
             False method_name method_args [] nest_level
         else if in_method then
           class_body_loop rest found in_method method_name method_args
             (method_body @ [line]) (nest_level - 1)
         else
           class_body_loop rest found in_method method_name method_args method_body nest_level)
      else if in_method then
        class_body_loop rest found in_method method_name method_args (method_body @ [line])
          (if startswith clean_line ''if '' \<or> startswith clean_line ''loop '' then nest_level + 1
           else if clean_line \<in> set [''endif'', ''endloop''] \<and> nest_level > 0 then nest_level - 1
           else nest_level)
      else
        class_body_loop rest found in_method method_name method_args method_body nest_level)"

definition preprocess_class_body :: "string \<Rightarrow> string list \<Rightarrow> state \<Rightarrow> state" where
  "preprocess_class_body class_name class_lines st =
     st\<lparr>CLASSES :=
          AList.update class_name
            \<lparr>methods = class_body_loop class_lines [] False None [] [] 0\<rparr> (CLASSES st)\<rparr>"

datatype construct = In_class | In_func

text \<open>
  The loop of \<open>preprocess_script\<close>. At \<open>endfunc\<close> the body is stored with
  \<open>FUNCTIONS[construct_name]['body'] = construct_body\<close>, which raises \<open>KeyError\<close> when the opening
  \<open>func\<close> line did not match the pattern and no earlier one had.
\<close>

fun preprocess_loop ::
  "string list \<Rightarrow> string list \<Rightarrow> construct option \<Rightarrow> string option \<Rightarrow> string list \<Rightarrow> int
     \<Rightarrow> string option \<Rightarrow> state \<Rightarrow> string list res" where
  "preprocess_loop [] main_code in_construct construct_name construct_body nest_level
     current_class_name st = Ret main_code st"
| "preprocess_loop (line # rest) main_code in_construct construct_name construct_body nest_level
     current_class_name st =
     (let clean_line = strip (strip_inline_comments line) in
      if startswith clean_line ''class '' then
        (if in_construct = None then
           (case split_ws clean_line [] of
              w0 # w1 # ws \<Rightarrow>
                preprocess_loop rest main_code (Some In_class) construct_name [] 0 (Some w1) st
            | _ \<Rightarrow> Raise (Exception ''list index out of range'') st)
         else
           preprocess_loop rest main_code in_construct construct_name (construct_body @ [line])
             (nest_level + 1) current_class_name st)
      else if startswith clean_line ''func '' then
        (if in_construct = None then
           (case keyword_call_match ''func'' clean_line of
              Some (name, arg_str) \<Rightarrow>
                preprocess_loop rest main_code (Some In_func) (Some name) [] 0 current_class_name
                  (st\<lparr>FUNCTIONS :=
                        AList.update name \<lparr>args = split_args arg_str, body = []\<rparr> (FUNCTIONS st)\<rparr>)
            | None \<Rightarrow>
                preprocess_loop rest main_code (Some In_func) construct_name [] 0
                  current_class_name st)
         else
           preprocess_loop rest main_code in_construct construct_name (construct_body @ [line])
             (nest_level + 1) current_class_name st)
      else if startswith clean_line ''endclass'' then
        (if in_construct = Some In_class \<and> nest_level = 0 then
           preprocess_loop rest main_code None construct_name [] nest_level None
             (case current_class_name of
                Some cn \<Rightarrow> preprocess_class_body cn construct_body st
              | None \<Rightarrow> st)
         else if in_construct \<noteq> None then
           preprocess_loop rest main_code in_construct construct_name (construct_body @ [line])
             (nest_level - 1) current_class_name st
         else
           preprocess_loop rest main_code in_construct construct_name construct_body nest_level
             current_class_name
             (print_line ''Syntax Error: 'endclass' without matching 'class'.'' st))
      else if clean_line = ''endfunc'' then
        (if in_construct \<noteq> None \<and> nest_level = 0 then
           (if in_construct = Some In_func then
              (case construct_name of
                 None \<Rightarrow> Raise (KeyError ''None'') st
               | Some n \<Rightarrow>
                   (case map_of (FUNCTIONS st) n of
                      None \<Rightarrow> Raise (KeyError (quoted n)) st
                    | Some fi \<Rightarrow>
                        preprocess_loop rest main_code None construct_name [] nest_level
                          current_class_name
                          (st\<lparr>FUNCTIONS :=
                                AList.update n (fi\<lparr>body := construct_body\<rparr>) (FUNCTIONS st)\<rparr>)))
            else
              preprocess_loop rest main_code None construct_name [] nest_level
                current_class_name st)
         else if in_construct \<noteq> None then
           preprocess_loop rest main_code in_construct construct_name (construct_body @ [line])
             (nest_level - 1) current_class_name st
         else
           preprocess_loop rest main_code in_construct construct_name construct_body nest_level
             current_class_name
             (print_line ''Syntax Error: 'endfunc' without matching 'func'.'' st))
      else if in_construct \<noteq> None then
        preprocess_loop rest main_code in_construct construct_name (construct_body @ [line])
          (if startswith clean_line ''class '' \<or> startswith clean_line ''func ''
              \<or> startswith clean_line ''if '' \<or> startswith clean_line ''loop ''
           then nest_level + 1
           else if clean_line \<in> set [''endclass'', ''endfunc'', ''endif'', ''endloop'']
                   \<and> nest_level > 0
           then nest_level - 1
           else nest_level)
          current_class_name st
      else
        preprocess_loop rest (main_code @ [line]) in_construct construct_name construct_body
          nest_level current_class_name st)"

definition preprocess_script :: "string list \<Rightarrow> state \<Rightarrow> string list res" where
  "preprocess_script all_lines st = preprocess_loop all_lines [] None None [] 0 None st"

section \<open>Module Loader\<close>

text \<open>
  \<open>load_module\<close> runs the preprocessor and the executor (the argument \<open>exec\<close>) on the lines of
  another file with both registries emptied; its \<open>finally\<close> clause puts the saved registries
  back on every way out.
\<close>

definition restore_registries ::
  "(string \<times> func_info) list \<Rightarrow> (string \<times> class_info) list \<Rightarrow> 'a res \<Rightarrow> 'a res" where
  "restore_registries saved_functions saved_classes r =
     (case r of
        Ret a s \<Rightarrow> Ret a (s\<lparr>FUNCTIONS := saved_functions, CLASSES := saved_classes\<rparr>)
      | Raise e s \<Rightarrow> Raise e (s\<lparr>FUNCTIONS := saved_functions, CLASSES := saved_classes\<rparr>)
      | NoResult \<Rightarrow> NoResult)"

definition load_module ::
  "host \<Rightarrow> executor \<Rightarrow> string \<Rightarrow> state
     \<Rightarrow> (env \<times> (string \<times> func_info) list \<times> (string \<times> class_info) list) res" where
  "load_module h exec module_path st =
     restore_registries (FUNCTIONS st) (CLASSES st)
       (case read_lines h module_path of
          Inl e \<Rightarrow> Raise e (st\<lparr>FUNCTIONS := [], CLASSES := []\<rparr>)
        | Inr lines \<Rightarrow>
            bind_res (preprocess_script lines (st\<lparr>FUNCTIONS := [], CLASSES := []\<rparr>))
              (\<lambda>main_script_lines st1.
                 bind_res (exec main_script_lines [] st1)
                   (\<lambda>(rv, module_vars) st2.
                      Ret (module_vars, FUNCTIONS st2, CLASSES st2) st2)))"

section \<open>Statement Executor\<close>

subsection \<open>Block boundary resolution\<close>

definition is_opener :: "string \<Rightarrow> bool" where
  "is_opener scan_line =
     (startswith scan_line ''if '' \<or> startswith scan_line ''loop ''
      \<or> startswith scan_line ''func '' \<or> startswith scan_line ''class '')"

definition is_closer :: "string \<Rightarrow> bool" where
  "is_closer scan_line = (scan_line \<in> set [''endif'', ''endloop'', ''endfunc'', ''endclass''])"

text \<open>The scan of an \<open>if\<close> block over \<open>lines[i:]\<close>: the position of the last \<open>else\<close> seen at depth
  zero, if any, and the position of the closer. \<open>None\<close> when the lines end first.\<close>

fun scan_if :: "string list \<Rightarrow> nat \<Rightarrow> nat \<Rightarrow> nat option \<Rightarrow> (nat option \<times> nat) option" where
  "scan_if [] i nest_level else_pos = None"
| "scan_if (l # ls) i nest_level else_pos =
     (let scan_line = strip (strip_inline_comments l) in
      if is_opener scan_line then scan_if ls (Suc i) (Suc nest_level) else_pos
      else if is_closer scan_line then
        (if nest_level = 0 then Some (else_pos, i) else scan_if ls (Suc i) (nest_level - 1) else_pos)
      else if scan_line = ''else'' \<and> nest_level = 0 then scan_if ls (Suc i) nest_level (Some i)
      else scan_if ls (Suc i) nest_level else_pos)"

fun scan_loop :: "string list \<Rightarrow> nat \<Rightarrow> nat \<Rightarrow> nat option" where
  "scan_loop [] i nest_level = None"
| "scan_loop (l # ls) i nest_level =
     (let scan_line = strip (strip_inline_comments l) in
      if is_opener scan_line then scan_loop ls (Suc i) (Suc nest_level)
      else if is_closer scan_line then
        (if nest_level = 0 then Some i else scan_loop ls (Suc i) (nest_level - 1))
      else scan_loop ls (Suc i) nest_level)"

subsection \<open>Dispatch\<close>

text \<open>The shape of a trimmed line, in the order of the \<open>if\<close>/\<open>elif\<close> chain of \<open>execute\<close>.\<close>

datatype kind =
    KSteal
  | KFuncCall string string
  | KNew
  | KMethod string string string
  | KVarThis | KVar
  | KSay | KInput | KMath | KEmptyline | KPause | KBreak | KReturn
  | KIf | KLoop | KHelp | KCloser | KUnknown

definition known_call :: "(string \<times> func_info) list \<Rightarrow> string \<Rightarrow> (string \<times> string \<times> func_info) option" where
  "known_call functions s =
     (case call_match s of
        None \<Rightarrow> None
      | Some (func_name, arg_str) \<Rightarrow>
          (case map_of functions func_name of
             None \<Rightarrow> None
           | Some func_info \<Rightarrow> Some (func_name, arg_str, func_info)))"

definition kind_of :: "(string \<times> func_info) list \<Rightarrow> string \<Rightarrow> kind" where
  "kind_of functions original_line =
     (if startswith original_line ''steal '' then KSteal
      else case known_call functions original_line of
        Some (func_name, arg_str, func_info) \<Rightarrow> KFuncCall func_name arg_str
      | None \<Rightarrow>
          if startswith original_line ''var '' \<and> contains_sub original_line ''new '' then KNew
          else case method_match original_line of
            Some (obj_expr, method_name, arg_str) \<Rightarrow> KMethod obj_expr method_name arg_str
          | None \<Rightarrow>
              if startswith original_line ''var '' then
                (if startswith original_line ''var this.'' then KVarThis else KVar)
              else if startswith original_line ''say '' then KSay
              else if startswith original_line ''input '' then KInput
              else if startswith original_line ''math '' then KMath
              else if startswith original_line ''emptyline '' then KEmptyline
              else if original_line = ''pause'' then KPause
              else if original_line = ''break'' then KBreak
              else if startswith original_line ''return '' then KReturn
              else if startswith original_line ''if '' then KIf
              else if startswith original_line ''loop '' then KLoop
              else if original_line = ''help'' then KHelp
              else if original_line \<in> set [''else'', ''endif'', ''endloop'', ''endfunc'', ''endclass'']
              then KCloser
              else KUnknown)"

subsection \<open>The statements\<close>

text \<open>Each statement takes the executor to use for nested invocations (\<open>exec\<close>) and the fuel
  for interpolation (\<open>k\<close>), and gives back the caller's environment after the statement.\<close>

definition arity_message :: "string \<Rightarrow> nat \<Rightarrow> nat \<Rightarrow> string" where
  "arity_message func_name expected got =
     ''Error: Function '' @ quoted func_name @ '' expects '' @ show_nat expected
       @ '' arguments, but got '' @ show_nat got @ ''.''"

definition exec_steal :: "host \<Rightarrow> executor \<Rightarrow> nat \<Rightarrow> string \<Rightarrow> env \<Rightarrow> state \<Rightarrow> env res" where
  "exec_steal h exec pc original_line variables st =
     (case steal_match original_line of
        None \<Rightarrow>
          Ret variables
            (print_line (''Syntax Error on line '' @ show_nat (pc + 1) @ '': Invalid steal syntax.'') st)
      | Some (symbol, module_path) \<Rightarrow>
          (case load_module h exec module_path st of
             NoResult \<Rightarrow> NoResult
           | Ret (mod_vars, mod_funcs, mod_classes) st1 \<Rightarrow>
               (case map_of mod_vars symbol of
                  Some v \<Rightarrow> Ret (AList.update symbol v variables) st1
                | None \<Rightarrow>
                    (case map_of mod_funcs symbol of
                       Some f \<Rightarrow> Ret variables (st1\<lparr>FUNCTIONS := AList.update symbol f (FUNCTIONS st1)\<rparr>)
                     | None \<Rightarrow>
                         (case map_of mod_classes symbol of
                            Some c \<Rightarrow>
                              Ret variables (st1\<lparr>CLASSES := AList.update symbol c (CLASSES st1)\<rparr>)
                          | None \<Rightarrow>
                              Ret variables
                                (print_line (''Import Error on line '' @ show_nat (pc + 1) @ '': ''
                                   @ quoted symbol @ '' not found in '' @ module_path @ ''.'') st1))))
           | Raise e st1 \<Rightarrow>
               if e = FileNotFoundError then
                 Ret variables
                   (print_line (''Import Error on line '' @ show_nat (pc + 1) @ '': Module file ''
                      @ quoted module_path @ '' not found.'') st1)
               else if is_Exception e then
                 Ret variables
                   (print_line (''Import Error on line '' @ show_nat (pc + 1) @ '': '' @ exc_str e) st1)
               else Raise e st1))"

text \<open>An \<open>except ValueError\<close> clause around a statement: the diagnostic is printed and the
  invocation goes on with the variables as they are at that moment (the second argument).\<close>

definition except_ValueError :: "string \<Rightarrow> 'a \<Rightarrow> 'a res \<Rightarrow> 'a res" where
  "except_ValueError message variables r =
     (case r of
        Raise e s \<Rightarrow> if is_ValueError e then Ret variables (print_line message s) else Raise e s
      | _ \<Rightarrow> r)"

text \<open>The \<open>ValueError\<close> of \<open>a, b = text.split('=', 1)\<close> when the text has no equals sign.\<close>

definition unpack_error :: py_exc where
  "unpack_error = ValueError ''not enough values to unpack (expected 2, got 1)''"

definition invalid_assignment :: "nat \<Rightarrow> string" where
  "invalid_assignment pc =
     ''Syntax Error on line '' @ show_nat (pc + 1) @ '': Invalid variable assignment.''"

definition exec_func_call ::
  "host \<Rightarrow> executor \<Rightarrow> nat \<Rightarrow> string \<Rightarrow> string \<Rightarrow> env \<Rightarrow> state \<Rightarrow> env res" where
  "exec_func_call h exec k func_name arg_str variables st =
     (case map_of (FUNCTIONS st) func_name of
        None \<Rightarrow> Raise (KeyError (quoted func_name)) st
      | Some func_info \<Rightarrow>
          (let arg_names = args func_info; arg_values_raw = split_args arg_str in
           if length arg_values_raw \<noteq> length arg_names then
             Ret variables
               (print_line (arity_message func_name (length arg_names) (length arg_values_raw)) st)
           else
             bind_res (eval_args h k arg_values_raw variables st)
               (\<lambda>arg_values st1.
                  bind_res (dbg h arg_values st1)
                    (\<lambda>u st2.
                       bind_res (exec (body func_info) (dict_of_pairs (zip arg_names arg_values)) st2)
                         (\<lambda>r st3. Ret variables st3)))))"

definition exec_new :: "host \<Rightarrow> executor \<Rightarrow> nat \<Rightarrow> nat \<Rightarrow> string \<Rightarrow> env \<Rightarrow> state \<Rightarrow> env res" where
  "exec_new h exec k pc original_line variables st =
     except_ValueError (invalid_assignment pc) variables
       (case split_first (CHR ''='') (drop 4 original_line) of
          None \<Rightarrow> Raise unpack_error st
        | Some (name_part, value_part) \<Rightarrow>
            (let name = strip name_part in
             case keyword_call_match ''new'' (strip value_part) of
               None \<Rightarrow> Ret variables (print_line ''Syntax Error: Invalid 'new' statement.'' st)
             | Some (class_name, arg_str) \<Rightarrow>
                 (case map_of (CLASSES st) class_name of
                    None \<Rightarrow>
                      Ret variables
                        (print_line (''Error: Class '' @ quoted class_name @ '' is not defined.'') st)
                  | Some class_info \<Rightarrow>
                      (let new_object = VRef (length (heap st));
                           st0 = st\<lparr>heap := heap st
                                         @ [Instance (Some (VStr class_name)) (Attributes [])]\<rparr>
                       in bind_res
                            (case map_of (methods class_info) ''init'' of
                               None \<Rightarrow> Ret () st0
                             | Some init_func \<Rightarrow>
                                 bind_res (eval_args h k (split_args arg_str) variables st0)
                                   (\<lambda>arg_values st1.
                                      bind_res (dbg h arg_values st1)
                                        (\<lambda>u st2.
                                           bind_res
                                             (exec (body init_func)
                                                (dict_update [(''this'', new_object)]
                                                   (dict_of_pairs (zip (args init_func) arg_values)))
                                                st2)
                                             (\<lambda>r st3. Ret () st3))))
                            (\<lambda>u st4. Ret (AList.update name new_object variables) st4)))))"

definition method_missing :: "string \<Rightarrow> string" where
  "method_missing method_name = ''Error: Method '' @ quoted method_name @ '' not found on object.''"

definition exec_method ::
  "host \<Rightarrow> executor \<Rightarrow> nat \<Rightarrow> string \<Rightarrow> string \<Rightarrow> string \<Rightarrow> env \<Rightarrow> state \<Rightarrow> env res" where
  "exec_method h exec k obj_expr method_name arg_str variables st =
     bind_res (substitute_vars h k obj_expr variables st)
       (\<lambda>text st1.
          bind_res (safe_eval h text variables st1)
            (\<lambda>obj_instance st2.
               case get_instance (heap st2) obj_instance of
                 None \<Rightarrow>
                   Ret variables
                     (print_line (''Error: '' @ quoted obj_expr
                        @ '' did not evaluate to an object.'') st2)
               | Some (addr, cn, attrs) \<Rightarrow>
                   bind_res (lift_host (read_class_name h (heap st2) cn attrs) st2)
                     (\<lambda>key st3.
                        bind_res (lift_host (classes_get (CLASSES st3) (heap st3) key) st3)
                          (\<lambda>found st4.
                             case (case found of
                                     None \<Rightarrow> None
                                   | Some class_info \<Rightarrow> map_of (methods class_info) method_name) of
                               None \<Rightarrow> Ret variables (print_line (method_missing method_name) st4)
                             | Some method_info \<Rightarrow>
                                 bind_res (eval_args h k (split_args arg_str) variables st4)
                                   (\<lambda>arg_values st5.
                                      bind_res (dbg h arg_values st5)
                                        (\<lambda>u st6.
                                           bind_res
                                             (exec (body method_info)
                                                (dict_update [(''this'', obj_instance)]
                                                   (dict_of_pairs
                                                      (zip (args method_info) arg_values)))
                                                st6)
                                             (\<lambda>(ret, local_vars) st7.
                                                bind_res (dbg h [ret] st7)
                                                  (\<lambda>u st8. Ret variables st8))))))))"

definition exec_var_this :: "host \<Rightarrow> nat \<Rightarrow> nat \<Rightarrow> string \<Rightarrow> env \<Rightarrow> state \<Rightarrow> env res" where
  "exec_var_this h k pc original_line variables st =
     (case (case map_of variables ''this'' of
              None \<Rightarrow> None
            | Some this \<Rightarrow> get_instance (heap st) this) of
        None \<Rightarrow>
          Ret variables (print_line ''Error: 'this' can only be used inside a class method.'' st)
      | Some (addr, cn, attrs) \<Rightarrow>
          except_ValueError
            (''Syntax Error on line '' @ show_nat (pc + 1) @ '': Invalid attribute assignment.'')
            variables
            (case split_first (CHR ''='') (drop 9 original_line) of
               None \<Rightarrow> Raise unpack_error st
             | Some (attr_part, value_str) \<Rightarrow>
                 bind_res (substitute_vars h k (strip value_str) variables st)
                   (\<lambda>text st1.
                      bind_res (safe_eval h text variables st1)
                        (\<lambda>v st2.
                           bind_res (set_attr h addr (strip attr_part) v st2)
                             (\<lambda>u st3.
                                bind_res (dbg h [v] st3) (\<lambda>u st4. Ret variables st4))))))"

text \<open>The parenthesis spelling of a map literal is rewritten to braces.\<close>

definition vata_rewrite :: "string \<Rightarrow> string" where
  "vata_rewrite value_str =
     (if startswith value_str ''('' \<and> endswith value_str '')''
      then ''{'' @ butlast (tl value_str) @ ''}'' else value_str)"

text \<open>\<open>variables[name] = value\<close> followed by \<open>_dbg(f"SET var {name} = {value}")\<close>.\<close>

definition assign :: "host \<Rightarrow> nat \<Rightarrow> string \<Rightarrow> pyval \<Rightarrow> env \<Rightarrow> state \<Rightarrow> env res" where
  "assign h pc name v variables st =
     except_ValueError (invalid_assignment pc) (AList.update name v variables)
       (bind_res (dbg h [v] st) (\<lambda>u st1. Ret (AList.update name v variables) st1))"

definition exec_var :: "host \<Rightarrow> executor \<Rightarrow> nat \<Rightarrow> nat \<Rightarrow> string \<Rightarrow> env \<Rightarrow> state \<Rightarrow> env res" where
  "exec_var h exec k pc original_line variables st =
     except_ValueError (invalid_assignment pc) variables
       (case split_first (CHR ''='') (drop 4 original_line) of
          None \<Rightarrow> Raise unpack_error st
        | Some (name_part, value_part) \<Rightarrow>
            (let name = strip name_part; value_str = strip value_part in
             case known_call (FUNCTIONS st) value_str of
               Some (func_name, arg_str, func_info) \<Rightarrow>
                 (let arg_names = args func_info; arg_values_raw = split_args arg_str in
                  if length arg_values_raw \<noteq> length arg_names then
                    Ret (AList.update name VNone variables)
                      (print_line
                         (arity_message func_name (length arg_names) (length arg_values_raw)) st)
                  else
                    bind_res (eval_args h k arg_values_raw variables st)
                      (\<lambda>arg_values st1.
                         bind_res (dbg h arg_values st1)
                           (\<lambda>u st2.
                              bind_res
                                (exec (body func_info) (dict_of_pairs (zip arg_names arg_values))
                                   st2)
                                (\<lambda>(return_value, local_vars) st3.
                                   assign h pc name return_value variables st3))))
             | None \<Rightarrow>
                 bind_res (substitute_vars h k value_str variables st)
                   (\<lambda>text st1.
                      bind_res (safe_eval h (vata_rewrite text) variables st1)
                        (\<lambda>result st2.
                           if result \<noteq> VNone then assign h pc name result variables st2
                           else
                             Ret variables
                               (print_line (''Syntax Error or invalid value for variable ''
                                  @ quoted name @ '' on line '' @ show_nat (pc + 1) @ ''.'')
                                  st2)))))"

text \<open>\<open>print(value)\<close> writes \<open>str(value)\<close>.\<close>

definition print_value :: "host \<Rightarrow> pyval \<Rightarrow> state \<Rightarrow> unit res" where
  "print_value h v st =
     bind_res (lift_host (py_str h (heap st) v) st) (\<lambda>s st1. Ret () (print_line s st1))"

definition exec_say :: "host \<Rightarrow> nat \<Rightarrow> string \<Rightarrow> env \<Rightarrow> state \<Rightarrow> env res" where
  "exec_say h k original_line variables st =
     bind_res (substitute_vars h k (strip (drop 4 original_line)) variables st)
       (\<lambda>substituted_content st1.
          bind_res (safe_eval h substituted_content variables st1)
            (\<lambda>final_output st2.
               if final_output \<noteq> VNone
               then bind_res (print_value h final_output st2) (\<lambda>u st3. Ret variables st3)
               else Ret variables (print_line substituted_content st2)))"

text \<open>\<open>input()\<close>: the next line of the console input, \<open>EOFError\<close> when there is none.\<close>

definition read_input :: "state \<Rightarrow> string res" where
  "read_input st =
     (case stdin st of
        [] \<Rightarrow> Raise EOFError st
      | l # ls \<Rightarrow> Ret l (st\<lparr>stdin := ls\<rparr>))"

definition exec_input :: "host \<Rightarrow> string \<Rightarrow> env \<Rightarrow> state \<Rightarrow> env res" where
  "exec_input h original_line variables st =
     (case split_ws original_line [] of
        w0 # var_name # ws \<Rightarrow>
          bind_res (read_input st)
            (\<lambda>user_input st1.
               case py_eval h No_builtins user_input [] (heap st1) of
                 None \<Rightarrow> NoResult
               | Some (Inr parsed_input, hp) \<Rightarrow>
                   (case parsed_input of
                      VInt i \<Rightarrow> Ret (AList.update var_name parsed_input variables) (st1\<lparr>heap := hp\<rparr>)
                    | VBool b \<Rightarrow> Ret (AList.update var_name parsed_input variables) (st1\<lparr>heap := hp\<rparr>)
                    | _ \<Rightarrow> Ret (AList.update var_name (VStr user_input) variables) (st1\<lparr>heap := hp\<rparr>))
               | Some (Inl e, hp) \<Rightarrow>
                   if is_Exception e
                   then Ret (AList.update var_name (VStr user_input) variables) (st1\<lparr>heap := hp\<rparr>)
                   else Raise e (st1\<lparr>heap := hp\<rparr>))
      | _ \<Rightarrow> Raise (Exception ''list index out of range'') st)"

definition exec_math :: "host \<Rightarrow> nat \<Rightarrow> string \<Rightarrow> env \<Rightarrow> state \<Rightarrow> env res" where
  "exec_math h k original_line variables st =
     bind_res (substitute_vars h k original_line variables st)
       (\<lambda>line st1.
          bind_res (safe_eval h (drop 5 line) variables st1)
            (\<lambda>result st2.
               if result \<noteq> VNone
               then bind_res (print_value h result st2) (\<lambda>u st3. Ret variables st3)
               else Ret variables st2))"

definition exec_emptyline :: "host \<Rightarrow> nat \<Rightarrow> nat \<Rightarrow> string \<Rightarrow> env \<Rightarrow> state \<Rightarrow> env res" where
  "exec_emptyline h k pc original_line variables st =
     bind_res (substitute_vars h k original_line variables st)
       (\<lambda>line st1.
          case py_int h (strip (drop 10 line)) of
            None \<Rightarrow>
              Ret variables
                (print_line (''Invalid number for emptyline on line '' @ show_nat (pc + 1)) st1)
          | Some num_lines \<Rightarrow>
              if num_lines > 0
              then Ret variables (write_out (replicate (nat (num_lines - 1)) (CHR 0x0A)) st1)
              else Ret variables st1)"

definition exec_pause :: "env \<Rightarrow> state \<Rightarrow> env res" where
  "exec_pause variables st =
     bind_res (read_input (write_out ''Press Enter to continue...'' st))
       (\<lambda>l st1. Ret variables st1)"

definition help_lines :: "string list" where
  "help_lines =
     [''--- MSlash Help ---'',
      ''steal <symbol> from <file>.mslash - Import a variable/function/class from another file.'',
      ''my_func(args)            - Calls a global function.'',
      ''class <name> / endclass  - Defines a class.'',
      ''func <name>(args) / endfunc - Defines a function or method.'',
      ''return <value>           - Returns a value from a function/method.'',
      ''{ comment }              - An inline comment.'',
      ''var <name> = <value>     - Assigns a value. Supports var x = myFunc(...).'',
      ''say <message>            - Prints a message to the console.'',
      ''input <var_name>         - Prompts for user input.'',
      ''math <expression>        - Evaluates a mathematical expression.'',
      ''if <condition>           - Starts a conditional block.'',
      ''else / endif             - Used for conditional logic.'',
      ''loop <number> / endloop  - Starts a loop block.'',
      ''emptyline <number>       - Prints a number of empty lines.'',
      ''pause                    - Pauses execution until Enter is pressed.'',
      ''break                    - Terminates the script immediately.'',
      [CHR 0x0A] @ ''--- Data Types ---'',
      ''List: [item1, item2, ...]'',
      ''Vata (Dictionary): ('' @ [CHR 0x22] @ ''key1'' @ [CHR 0x22] @ '':'' @ [CHR 0x22]
        @ ''value1'' @ [CHR 0x22] @ '', ...)'',
      ''---------------------'']"

subsection \<open>Control flow\<close>

text \<open>What one statement tells the \<open>while\<close> loop: go on with the next line, set \<open>pc\<close> to the
  closer of a block and go on after it, or leave the invocation with a value (a \<open>return\<close>
  statement, or \<open>None\<close> when the loop is broken by an unmatched block opener).\<close>

datatype step = Next env | Jump nat env | Return pyval env

definition next_of :: "env res \<Rightarrow> step res" where
  "next_of r = bind_res r (\<lambda>variables st. Ret (Next variables) st)"

definition exec_return :: "host \<Rightarrow> nat \<Rightarrow> string \<Rightarrow> env \<Rightarrow> state \<Rightarrow> step res" where
  "exec_return h k original_line variables st =
     bind_res (substitute_vars h k (strip (drop 7 original_line)) variables st)
       (\<lambda>text st1.
          bind_res (safe_eval h text variables st1)
            (\<lambda>return_value st2.
               bind_res (dbg h [return_value] st2)
                 (\<lambda>u st3. Ret (Return return_value variables) st3)))"

definition exec_if ::
  "host \<Rightarrow> executor \<Rightarrow> nat \<Rightarrow> string list \<Rightarrow> nat \<Rightarrow> string \<Rightarrow> env \<Rightarrow> state \<Rightarrow> step res" where
  "exec_if h exec k lines pc original_line variables st =
     bind_res (substitute_vars h k original_line variables st)
       (\<lambda>line st1.
          bind_res (safe_eval h (drop 3 line) variables st1)
            (\<lambda>result st2.
               case scan_if (drop (pc + 1) lines) (pc + 1) 0 None of
                 None \<Rightarrow>
                   Ret (Return VNone variables)
                     (print_line (''Syntax Error: 'if' on line '' @ show_nat (pc + 1)
                        @ '' has no matching 'endif'.'') st2)
               | Some (else_pos, endif_pos) \<Rightarrow>
                   bind_res (dbg h [result] st2)
                     (\<lambda>u st3.
                        if truthy (heap st3) result then
                          bind_res
                            (exec (slice lines (pc + 1)
                                     (case else_pos of Some e \<Rightarrow> e | None \<Rightarrow> endif_pos))
                               variables st3)
                            (\<lambda>(rv, variables') st4. Ret (Jump endif_pos variables') st4)
                        else
                          (case else_pos of
                             Some e \<Rightarrow>
                               bind_res (exec (slice lines (e + 1) endif_pos) variables st3)
                                 (\<lambda>(rv, variables') st4. Ret (Jump endif_pos variables') st4)
                           | None \<Rightarrow> Ret (Jump endif_pos variables) st3))))"

text \<open>\<open>for _ in range(times): execute(loop_code, variables.copy())\<close>\<close>

fun loop_times :: "executor \<Rightarrow> string list \<Rightarrow> env \<Rightarrow> nat \<Rightarrow> state \<Rightarrow> unit res" where
  "loop_times exec loop_code variables 0 st = Ret () st"
| "loop_times exec loop_code variables (Suc t) st =
     bind_res (exec loop_code variables st)
       (\<lambda>r st1. loop_times exec loop_code variables t st1)"

definition loop_count :: "host \<Rightarrow> string \<Rightarrow> int option" where
  "loop_count h line =
     (case split_ws line [] of
        w0 # w1 # ws \<Rightarrow> py_int h w1
      | _ \<Rightarrow> None)"

definition exec_loop ::
  "host \<Rightarrow> executor \<Rightarrow> nat \<Rightarrow> string list \<Rightarrow> nat \<Rightarrow> string \<Rightarrow> env \<Rightarrow> state \<Rightarrow> step res" where
  "exec_loop h exec k lines pc original_line variables st =
     bind_res (substitute_vars h k original_line variables st)
       (\<lambda>line st1.
          case loop_count h line of
            None \<Rightarrow>
              Ret (Next variables)
                (print_line (''Syntax Error on line '' @ show_nat (pc + 1)
                   @ '': Invalid loop syntax.'') st1)
          | Some n_times \<Rightarrow>
              (case scan_loop (drop (pc + 1) lines) (pc + 1) 0 of
                 None \<Rightarrow>
                   Ret (Return VNone variables)
                     (print_line (''Syntax Error: 'loop' on line '' @ show_nat (pc + 1)
                        @ '': No matching 'endloop'.'') st1)
               | Some loop_body_end \<Rightarrow>
                   bind_res
                     (loop_times exec (slice lines (pc + 1) loop_body_end) variables (nat n_times) st1)
                     (\<lambda>u st2. Ret (Jump loop_body_end variables) st2)))"

definition exec_line ::
  "host \<Rightarrow> executor \<Rightarrow> nat \<Rightarrow> string list \<Rightarrow> nat \<Rightarrow> string \<Rightarrow> env \<Rightarrow> state \<Rightarrow> step res" where
  "exec_line h exec k lines pc original_line variables st =
     (case kind_of (FUNCTIONS st) original_line of
        KSteal \<Rightarrow> next_of (exec_steal h exec pc original_line variables st)
      | KFuncCall func_name arg_str \<Rightarrow>
          next_of (exec_func_call h exec k func_name arg_str variables st)
      | KNew \<Rightarrow> next_of (exec_new h exec k pc original_line variables st)
      | KMethod obj_expr method_name arg_str \<Rightarrow>
          next_of (exec_method h exec k obj_expr method_name arg_str variables st)
      | KVarThis \<Rightarrow> next_of (exec_var_this h k pc original_line variables st)
      | KVar \<Rightarrow> next_of (exec_var h exec k pc original_line variables st)
      | KSay \<Rightarrow> next_of (exec_say h k original_line variables st)
      | KInput \<Rightarrow> next_of (exec_input h original_line variables st)
      | KMath \<Rightarrow> next_of (exec_math h k original_line variables st)
      | KEmptyline \<Rightarrow> next_of (exec_emptyline h k pc original_line variables st)
      | KPause \<Rightarrow> next_of (exec_pause variables st)
      | KBreak \<Rightarrow> Raise SystemExit (print_line ''--- Script terminated by break ---'' st)
      | KReturn \<Rightarrow> exec_return h k original_line variables st
      | KIf \<Rightarrow> exec_if h exec k lines pc original_line variables st
      | KLoop \<Rightarrow> exec_loop h exec k lines pc original_line variables st
      | KHelp \<Rightarrow> Ret (Next variables) (fold print_line help_lines st)
      | KCloser \<Rightarrow> Ret (Next variables) st
      | KUnknown \<Rightarrow>
          Ret (Next variables)
            (print_line (''Unknown command or syntax error on line '' @ show_nat (pc + 1)
               @ '': '' @ quoted original_line) st))"

subsection \<open>The line loop and the executor\<close>

lemma scan_if_pos: "scan_if ls i nest_level else_pos = Some (a, e) \<Longrightarrow> i \<le> e"
proof (induction ls arbitrary: i nest_level else_pos)
  case Nil
  then show ?case by simp
next
  case (Cons l ls)
  then show ?case
    by (fastforce simp: Let_def split: if_splits dest: Suc_leD)
qed

lemma scan_loop_pos: "scan_loop ls i nest_level = Some e \<Longrightarrow> i \<le> e"
proof (induction ls arbitrary: i nest_level)
  case Nil
  then show ?case by simp
next
  case (Cons l ls)
  then show ?case
    by (fastforce simp: Let_def split: if_splits dest: Suc_leD)
qed

lemma bind_res_Ret:
  "bind_res r f = Ret b s \<Longrightarrow> \<exists>a s0. r = Ret a s0 \<and> f a s0 = Ret b s"
  by (cases r) (simp_all add: bind_res_def)

lemma next_of_no_jump: "next_of r \<noteq> Ret (Jump e v) s"
  by (cases r) (simp_all add: next_of_def bind_res_def)

lemma exec_return_no_jump: "exec_return h k original_line variables st \<noteq> Ret (Jump e v) s"
  unfolding exec_return_def
  by (auto dest!: bind_res_Ret)

lemma exec_if_jump:
  "exec_if h exec k lines pc original_line variables st = Ret (Jump e v) s \<Longrightarrow> pc < e"
  unfolding exec_if_def
  by (auto dest!: bind_res_Ret scan_if_pos split: option.splits if_splits prod.splits)

lemma exec_loop_jump:
  "exec_loop h exec k lines pc original_line variables st = Ret (Jump e v) s \<Longrightarrow> pc < e"
  unfolding exec_loop_def
  by (auto dest!: bind_res_Ret scan_loop_pos split: option.splits if_splits)

lemma exec_line_jump:
  "exec_line h exec k lines pc original_line variables st = Ret (Jump e v) s \<Longrightarrow> pc < e"
  unfolding exec_line_def
  by (cases "kind_of (FUNCTIONS st) original_line")
     (auto simp: next_of_no_jump exec_return_no_jump dest: exec_if_jump exec_loop_jump)

text \<open>
  The \<open>while pc < len(lines)\<close> loop of \<open>execute\<close>. It ends because every statement moves \<open>pc\<close>
  forward; what may not end are the nested invocations, which go through \<open>exec\<close>.
\<close>

function run_lines ::
  "host \<Rightarrow> executor \<Rightarrow> nat \<Rightarrow> string list \<Rightarrow> nat \<Rightarrow> env \<Rightarrow> state \<Rightarrow> (pyval \<times> env) res" where
  "run_lines h exec k lines pc variables st =
     (if pc < length lines then
        (let original_line = strip (strip_inline_comments (lines ! pc)) in
         if original_line = [] then run_lines h exec k lines (pc + 1) variables st
         else
           (case exec_line h exec k lines pc original_line variables st of
              NoResult \<Rightarrow> NoResult
            | Raise e st1 \<Rightarrow> Raise e st1
            | Ret (Return return_value variables1) st1 \<Rightarrow> Ret (return_value, variables1) st1
            | Ret (Next variables1) st1 \<Rightarrow> run_lines h exec k lines (pc + 1) variables1 st1
            | Ret (Jump block_end variables1) st1 \<Rightarrow>
                run_lines h exec k lines (block_end + 1) variables1 st1))
      else Ret (VNone, variables) st)"
  by pat_completeness auto
termination
  by (relation "measure (\<lambda>(h, exec, k, lines, pc, variables, st). length lines - pc)")
     (auto dest: exec_line_jump)

declare run_lines.simps [simp del]

text \<open>
  \<open>execute\<close> with fuel: one unit for every level of nested invocation (function and method
  bodies, blocks, modules), and the remaining units for each interpolation loop. No fuel left
  is the result \<open>NoResult\<close>.
\<close>

fun execute :: "host \<Rightarrow> nat \<Rightarrow> string list \<Rightarrow> env \<Rightarrow> state \<Rightarrow> (pyval \<times> env) res" where
  "execute h 0 lines variables st = NoResult"
| "execute h (Suc n) lines variables st = run_lines h (execute h n) n lines 0 variables st"

section \<open>A concrete host fragment for the examples\<close>

text \<open>
  The examples below run on a host that answers the texts they use the way the real one does:
  an unsigned decimal literal, the constants \<open>True\<close>, \<open>False\<close> and \<open>None\<close>, and a bare name other
  than those of the allowed built-ins, which is looked up in the locals and raises \<open>NameError\<close>
  when unbound there. Every other text is answered with an exception derived from \<open>Exception\<close>,
  and so are \<open>str\<close> of an instance whose \<open>class_name\<close> is not a text and the four operations
  on a value in the place of an attribute dictionary; of these answers the examples use one,
  the \<open>TypeError\<close> of \<open>locals.update(v)\<close> for an integer \<open>v\<close>.
  Files are given as an association list from paths to lines.
\<close>

definition is_digit :: "char \<Rightarrow> bool" where
  "is_digit c = (let n = (of_char c :: nat) in 48 \<le> n \<and> n \<le> 57)"

definition read_nat :: "string \<Rightarrow> nat" where
  "read_nat s = foldl (\<lambda>a c. 10 * a + (of_char c - 48)) 0 s"

text \<open>A decimal literal has no leading zero, unless all its digits are zero.\<close>

definition is_literal :: "string \<Rightarrow> bool" where
  "is_literal s =
     (case s of
        [] \<Rightarrow> False
      | c # cs \<Rightarrow>
          list_all is_digit s \<and> (if c = CHR ''0'' then list_all (\<lambda>d. d = CHR ''0'') cs else True))"

text \<open>The source handed to \<open>eval\<close> may have blanks and tabs before it and white space of the
  language after it.\<close>

definition eval_strip :: "string \<Rightarrow> string" where
  "eval_strip s =
     rev (dropWhile (\<lambda>c. c \<in> set [CHR 0x20, CHR 0x09, CHR 0x0A, CHR 0x0C, CHR 0x0D])
            (rev (dropWhile (\<lambda>c. c \<in> set [CHR 0x20, CHR 0x09]) s)))"

definition builtin_names :: "string list" where
  "builtin_names = [''str'', ''int'', ''float'', ''list'', ''dict'', ''len'', ''type'']"

definition tiny_eval ::
  "builtins \<Rightarrow> string \<Rightarrow> env \<Rightarrow> heap \<Rightarrow> ((py_exc + pyval) \<times> heap) option" where
  "tiny_eval b expression locals hp =
     (let s = eval_strip expression in
      Some
        (if s = ''None'' then Inr VNone
         else if s = ''True'' then Inr (VBool True)
         else if s = ''False'' then Inr (VBool False)
         else if is_literal s then Inr (VInt (int (read_nat s)))
         else if take_ident s = Some (s, []) \<and> s \<notin> set builtin_names
         then (case map_of locals s of
                 Some v \<Rightarrow> Inr v
               | None \<Rightarrow> Inl (Exception (''name '' @ quoted s @ '' is not defined'')))
         else Inl (Exception ''invalid syntax''),
         hp))"

definition tiny_str :: "heap \<Rightarrow> pyval \<Rightarrow> py_exc + string" where
  "tiny_str hp v =
     (case v of
        VNone \<Rightarrow> Inr ''None''
      | VBool b \<Rightarrow> Inr (if b then ''True'' else ''False'')
      | VInt i \<Rightarrow> Inr (if i < 0 then ''-'' @ show_nat (nat (- i)) else show_nat (nat i))
      | VStr s \<Rightarrow> Inr s
      | VRef a \<Rightarrow>
          (case get_instance hp v of
             Some (_, Some (VStr cn), attrs) \<Rightarrow> Inr (''<instance of '' @ cn @ ''>'')
           | _ \<Rightarrow> Inl (Exception ''outside the fragment'')))"

definition tiny_int :: "string \<Rightarrow> int option" where
  "tiny_int text =
     (let s = strip text in
      if s \<noteq> [] \<and> list_all is_digit s then Some (int (read_nat s)) else None)"

definition tiny_host :: "(string \<times> string list) list \<Rightarrow> host" where
  "tiny_host files =
     \<lparr>py_eval = tiny_eval, py_str = tiny_str, py_int = tiny_int,
      py_update = (\<lambda>hp d v. case v of
                             VInt i \<Rightarrow> Inl (TypeError (quoted ''int'' @ '' object is not iterable''))
                           | _ \<Rightarrow> Inl (TypeError ''outside the fragment'')),
      py_setitem = (\<lambda>hp v key x. Inl (TypeError ''outside the fragment'')),
      py_contains = (\<lambda>hp v key. Inl (TypeError ''outside the fragment'')),
      py_getitem = (\<lambda>hp v key. Inl (TypeError ''outside the fragment'')),
      read_lines = (\<lambda>path. case map_of files path of
                              Some lines \<Rightarrow> Inr lines
                            | None \<Rightarrow> Inl FileNotFoundError)\<rparr>"

definition empty_state :: state where
  "empty_state = \<lparr>FUNCTIONS = [], CLASSES = [], heap = [], stdout = [], stdin = []\<rparr>"

text \<open>
  An expression that reaches \<open>sys.exit\<close> through the subclasses of \<open>object\<close>, which the restricted
  built-ins do not hide: it calls an instance of the class behind \<open>quit\<close>. \<open>exit_host\<close> is the
  example host with the answer of the real evaluator to this expression, \<open>SystemExit\<close>.
\<close>

definition exit_expression :: string where
  "exit_expression =
     ''[c for c in ().__class__.__base__.__subclasses__() if c.__name__ == ''
       @ quoted ''Quitter'' @ ''][0](0, 0)() or 1''"

definition exit_host :: host where
  "exit_host =
     (tiny_host [])\<lparr>py_eval :=
        (\<lambda>b expression locals hp.
           if expression = exit_expression then Some (Inl SystemExit, hp)
           else tiny_eval b expression locals hp)\<rparr>"

section \<open>Properties\<close>

subsection \<open>One step of the line loop\<close>

lemma kind_of_Nil: "kind_of functions [] = KUnknown"
  by (simp add: kind_of_def startswith_def known_call_def call_match_def take_ident_def
      method_match_def)

lemma kind_nonempty:
  "kind_of functions original_line = kd \<Longrightarrow> kd \<noteq> KUnknown \<Longrightarrow> original_line \<noteq> []"
  using kind_of_Nil by auto

lemma run_lines_at:
  assumes "pc < length lines"
    and "strip (strip_inline_comments (lines ! pc)) = original_line"
    and "original_line \<noteq> []"
  shows "run_lines h exec k lines pc variables st =
           (case exec_line h exec k lines pc original_line variables st of
              NoResult \<Rightarrow> NoResult
            | Raise e st1 \<Rightarrow> Raise e st1
            | Ret (Return return_value variables1) st1 \<Rightarrow> Ret (return_value, variables1) st1
            | Ret (Next variables1) st1 \<Rightarrow> run_lines h exec k lines (pc + 1) variables1 st1
            | Ret (Jump block_end variables1) st1 \<Rightarrow>
                run_lines h exec k lines (block_end + 1) variables1 st1)"
  using assms by (subst run_lines.simps) (simp add: Let_def)

lemma bind_res_simps [simp]:
  "bind_res (Ret a s) f = f a s"
  "bind_res (Raise e s) f = Raise e s"
  "bind_res NoResult f = NoResult"
  by (simp_all add: bind_res_def)

lemma next_of_simps [simp]:
  "next_of (Ret v s) = Ret (Next v) s"
  "next_of (Raise e s) = Raise e s"
  "next_of NoResult = NoResult"
  by (simp_all add: next_of_def)


text \<open>A statement that is not a block opener: the loop goes on with the next line.\<close>

lemma run_lines_next:
  assumes "pc < length lines"
    and "strip (strip_inline_comments (lines ! pc)) = original_line"
    and "original_line \<noteq> []"
    and "exec_line h exec k lines pc original_line variables st = next_of r"
  shows "run_lines h exec k lines pc variables st =
           bind_res r (\<lambda>variables1 st1. run_lines h exec k lines (pc + 1) variables1 st1)"
  using assms(4) by (cases r) (simp_all add: run_lines_at [OF assms(1-3)])

text \<open>A block statement whose last step is the jump to the closer.\<close>

lemma run_lines_jump:
  assumes "pc < length lines"
    and "strip (strip_inline_comments (lines ! pc)) = original_line"
    and "original_line \<noteq> []"
    and "exec_line h exec k lines pc original_line variables st =
           bind_res r (\<lambda>a st1. Ret (Jump block_end (f a)) st1)"
  shows "run_lines h exec k lines pc variables st =
           bind_res r (\<lambda>a st1. run_lines h exec k lines (block_end + 1) (f a) st1)"
  using assms(4) by (cases r) (simp_all add: run_lines_at [OF assms(1-3)])

lemma except_ValueError_simps [simp]:
  "except_ValueError m b (Ret a s) = Ret a s"
  "except_ValueError m b NoResult = NoResult"
  "except_ValueError m b (Raise e s) =
     (if is_ValueError e then Ret b (print_line m s) else Raise e s)"
  by (simp_all add: except_ValueError_def)


lemma if_bind_res:
  "bind_res (if c then a else b) f = (if c then bind_res a f else bind_res b f)"
  by simp

subsection \<open>Expression Evaluator\<close>

text \<open>
  C6 (amended). \<open>safe_eval\<close> is not total from its caller's point of view. It returns exactly
  when the locals can be prepared (always, unless an evaluation has replaced or deleted the
  \<open>attributes\<close> of the instance bound to \<open>this\<close>) and the host evaluation returns a value, which
  is then the answer, or raises an exception derived from \<open>Exception\<close> (a parse error, an
  unknown name, a disallowed operation), for which the answer is the absent value \<open>None\<close>. It
  raises to its caller exactly in the two other cases: the exception of the failed preparation,
  in the unchanged state, or an exception of the evaluation that does not derive from
  \<open>Exception\<close>. It does not return when the evaluation does not.
\<close>

theorem safe_eval_outcome:
  "((safe_eval h expression variables st = Ret v s) \<longleftrightarrow>
      (\<exists>locals out hp.
         eval_locals h variables (heap st) = Inr locals
         \<and> py_eval h Allowed_builtins expression locals (heap st) = Some (out, hp)
         \<and> s = st\<lparr>heap := hp\<rparr>
         \<and> (case out of Inr x \<Rightarrow> v = x | Inl x \<Rightarrow> is_Exception x \<and> v = VNone)))
   \<and> ((safe_eval h expression variables st = Raise e s) \<longleftrightarrow>
      (eval_locals h variables (heap st) = Inl e \<and> s = st
       \<or> (\<exists>locals hp.
            eval_locals h variables (heap st) = Inr locals
            \<and> py_eval h Allowed_builtins expression locals (heap st) = Some (Inl e, hp)
            \<and> s = st\<lparr>heap := hp\<rparr> \<and> \<not> is_Exception e)))
   \<and> ((safe_eval h expression variables st = NoResult) \<longleftrightarrow>
      (\<exists>locals.
         eval_locals h variables (heap st) = Inr locals
         \<and> py_eval h Allowed_builtins expression locals (heap st) = None))"
proof (cases "eval_locals h variables (heap st)")
  case (Inl x)
  then show ?thesis
    by (auto simp: safe_eval_def)
next
  case (Inr locals)
  show ?thesis
  proof (cases "py_eval h Allowed_builtins expression locals (heap st)")
    case None
    then show ?thesis
      using Inr by (simp add: safe_eval_def)
  next
    case (Some p)
    obtain out hp where p: "p = (out, hp)"
      by (cases p) auto
    show ?thesis
    proof (cases out)
      case (Inl x)
      then show ?thesis
        using Inr Some p by (auto simp: safe_eval_def)
    next
      case (Inr x)
      then show ?thesis
        using \<open>eval_locals h variables (heap st) = Inr locals\<close> Some p
        by (auto simp: safe_eval_def)
    qed
  qed
qed

text \<open>
  C6 (counterexample). The evaluation of \<open>exit_expression\<close> raises \<open>SystemExit\<close>, which the
  \<open>except Exception\<close> clause lets through: \<open>safe_eval\<close> raises it, and the script
  \<open>math <exit_expression> / say 2\<close> is aborted at its first line. With \<open>this\<close> bound to an
  instance whose \<open>attributes\<close> have been replaced by the integer 5, \<open>safe_eval\<close> raises the
  \<open>TypeError\<close> of \<open>eval_locals.update(5)\<close>, a statement that stands before the \<open>try\<close>.
\<close>

theorem safe_eval_can_raise:
  "safe_eval exit_host exit_expression [] empty_state = Raise SystemExit empty_state
   \<and> execute exit_host (Suc 0) [''math '' @ exit_expression, ''say 2''] [] empty_state
       = Raise SystemExit empty_state
   \<and> safe_eval (tiny_host []) ''1'' [(''this'', VRef 0)]
       (empty_state\<lparr>heap := [Instance (Some (VStr ''K'')) (Rebound (VInt 5))]\<rparr>)
       = Raise (TypeError (quoted ''int'' @ '' object is not iterable''))
           (empty_state\<lparr>heap := [Instance (Some (VStr ''K'')) (Rebound (VInt 5))]\<rparr>)"
  by code_simp

subsection \<open>Return inside a conditional block\<close>

text \<open>
  C1 (the code departs from the claim). A function whose body is
  \<open>if True / return 1 / endif\<close> is called by \<open>var r = f()\<close>. The \<open>return\<close> leaves the nested
  invocation over the block only: \<open>exec_if\<close> drops the value that invocation returns, the body
  runs on after \<open>endif\<close> and falls off its end, and \<open>r\<close> is bound to \<open>None\<close>, not to 1. With the
  body \<open>return 1\<close> alone, \<open>r\<close> is bound to 1.
\<close>

theorem return_in_if_not_forwarded:
  "execute (tiny_host []) (Suc (Suc (Suc (Suc 0)))) [''var r = f()''] []
     (empty_state\<lparr>FUNCTIONS :=
        [(''f'', \<lparr>args = [], body = [''if True'', ''return 1'', ''endif'']\<rparr>)]\<rparr>)
   = Ret (VNone, [(''r'', VNone)])
       (empty_state\<lparr>FUNCTIONS :=
          [(''f'', \<lparr>args = [], body = [''if True'', ''return 1'', ''endif'']\<rparr>)]\<rparr>)
   \<and> execute (tiny_host []) (Suc (Suc (Suc (Suc 0)))) [''var r = f()''] []
       (empty_state\<lparr>FUNCTIONS := [(''f'', \<lparr>args = [], body = [''return 1'']\<rparr>)]\<rparr>)
     = Ret (VNone, [(''r'', VInt 1)])
         (empty_state\<lparr>FUNCTIONS := [(''f'', \<lparr>args = [], body = [''return 1'']\<rparr>)]\<rparr>)"
  by code_simp

subsection \<open>Instantiation\<close>

text \<open>
  C2 (the code departs from the claim). The class \<open>P\<close> declares \<open>init(a, b)\<close> and the statement
  \<open>var p = new P(1)\<close> supplies one argument. Unlike the two function-call forms, \<open>exec_new\<close>
  does not compare the counts: \<open>init\<close> runs with \<open>a\<close> bound and \<open>b\<close> unbound, nothing is printed,
  and \<open>p\<close> is bound to the new instance.
\<close>

theorem new_ignores_argument_count:
  "execute (tiny_host []) (Suc (Suc (Suc 0))) [''var p = new P(1)''] []
     (empty_state\<lparr>CLASSES :=
        [(''P'', \<lparr>methods =
           [(''init'', \<lparr>args = [''a'', ''b''], body = [''var this.x = a'']\<rparr>)]\<rparr>)]\<rparr>)
   = Ret (VNone, [(''p'', VRef 0)])
       (empty_state\<lparr>CLASSES :=
          [(''P'', \<lparr>methods =
             [(''init'', \<lparr>args = [''a'', ''b''], body = [''var this.x = a'']\<rparr>)]\<rparr>)],
          heap := [Instance (Some (VStr ''P'')) (Attributes [(''x'', VInt 1)])]\<rparr>)"
  by code_simp

subsection \<open>Auxiliary facts on assignments and registries\<close>

lemma except_ValueError_Ret:
  "except_ValueError m b r = Ret a s \<Longrightarrow> r = Ret a s \<or> a = b"
  by (cases r) (simp_all split: if_splits)

lemma assign_Ret:
  "assign h pc name v variables st = Ret vs s \<Longrightarrow> vs = AList.update name v variables"
  by (auto simp: assign_def dest!: except_ValueError_Ret bind_res_Ret)

lemma print_line_registries [simp]:
  "FUNCTIONS (print_line m s) = FUNCTIONS s" "CLASSES (print_line m s) = CLASSES s"
  by (simp_all add: print_line_def write_out_def)



lemma kind_of_steal: "startswith original_line ''steal '' \<Longrightarrow> kind_of functions original_line = KSteal"
  by (simp add: kind_of_def)

lemma startswith_nonempty: "startswith original_line (c # cs) \<Longrightarrow> original_line \<noteq> []"
  by (auto simp: startswith_def)


subsection \<open>General assignment of an absent value\<close>

text \<open>
  C9. A line is dispatched to the general assignment when it is a \<open>var\<close> statement that is
  neither an instantiation, a method call nor an attribute assignment (\<open>KVar\<close>), has an equals
  sign, and whose right-hand side is not a call of a known function. Whenever the right-hand
  side, interpolated and with the map spelling rewritten, evaluates to \<open>None\<close>, the diagnostic
  is printed and the invocation goes on at the next line with the variables unchanged. And
  whatever the statement does, the variables it leaves are the ones it found or these with the
  name bound to a value other than \<open>None\<close>: the absent value is never stored by this form.
\<close>

theorem null_assignment_rejected:
  assumes "pc < length lines"
    and "strip (strip_inline_comments (lines ! pc)) = original_line"
    and "kind_of (FUNCTIONS st) original_line = KVar"
    and "split_first (CHR ''='') (drop 4 original_line) = Some (name_part, value_part)"
    and "known_call (FUNCTIONS st) (strip value_part) = None"
  shows "(\<forall>text st1 st2.
            substitute_vars h k (strip value_part) variables st = Ret text st1 \<longrightarrow>
            safe_eval h (vata_rewrite text) variables st1 = Ret VNone st2 \<longrightarrow>
            run_lines h exec k lines pc variables st =
              run_lines h exec k lines (pc + 1) variables
                (print_line (''Syntax Error or invalid value for variable ''
                   @ quoted (strip name_part) @ '' on line '' @ show_nat (pc + 1) @ ''.'') st2))
         \<and> (\<forall>variables1 s.
              exec_var h exec k pc original_line variables st = Ret variables1 s \<longrightarrow>
              variables1 = variables
              \<or> (\<exists>v. v \<noteq> VNone \<and> variables1 = AList.update (strip name_part) v variables))"
proof (intro conjI allI impI)
  have ne: "original_line \<noteq> []"
    using assms(3) kind_nonempty by blast
  have el: "exec_line h exec k lines pc original_line variables st =
              next_of (exec_var h exec k pc original_line variables st)"
    using assms(3) by (simp add: exec_line_def)
  have ev: "exec_var h exec k pc original_line variables st =
      except_ValueError (invalid_assignment pc) variables
        (bind_res (substitute_vars h k (strip value_part) variables st)
           (\<lambda>text st1.
              bind_res (safe_eval h (vata_rewrite text) variables st1)
                (\<lambda>result st2.
                   if result \<noteq> VNone then assign h pc (strip name_part) result variables st2
                   else Ret variables
                          (print_line (''Syntax Error or invalid value for variable ''
                             @ quoted (strip name_part) @ '' on line '' @ show_nat (pc + 1)
                             @ ''.'') st2))))"
    using assms(4,5) by (simp add: exec_var_def Let_def)
  {
    fix value_str st1 st2
    assume s: "substitute_vars h k (strip value_part) variables st = Ret value_str st1"
      and e: "safe_eval h (vata_rewrite value_str) variables st1 = Ret VNone st2"
    have "exec_var h exec k pc original_line variables st =
            Ret variables
              (print_line (''Syntax Error or invalid value for variable ''
                 @ quoted (strip name_part) @ '' on line '' @ show_nat (pc + 1) @ ''.'') st2)"
      by (simp add: ev s e)
    then show "run_lines h exec k lines pc variables st =
              run_lines h exec k lines (pc + 1) variables
                (print_line (''Syntax Error or invalid value for variable ''
                   @ quoted (strip name_part) @ '' on line '' @ show_nat (pc + 1) @ ''.'') st2)"
      by (simp add: run_lines_next [OF assms(1,2) ne el])
  }
  {
    fix variables1 s
    assume r: "exec_var h exec k pc original_line variables st = Ret variables1 s"
    show "variables1 = variables
          \<or> (\<exists>v. v \<noteq> VNone \<and> variables1 = AList.update (strip name_part) v variables)"
    proof (cases "variables1 = variables")
      case True
      then show ?thesis by simp
    next
      case False
      from r ev False
      have "bind_res (substitute_vars h k (strip value_part) variables st)
           (\<lambda>text st1.
              bind_res (safe_eval h (vata_rewrite text) variables st1)
                (\<lambda>result st2.
                   if result \<noteq> VNone then assign h pc (strip name_part) result variables st2
                   else Ret variables
                          (print_line (''Syntax Error or invalid value for variable ''
                             @ quoted (strip name_part) @ '' on line '' @ show_nat (pc + 1)
                             @ ''.'') st2))) = Ret variables1 s"
        using except_ValueError_Ret by fastforce
      then obtain result st2 where
        "(if result \<noteq> VNone then assign h pc (strip name_part) result variables st2
          else Ret variables
                 (print_line (''Syntax Error or invalid value for variable ''
                    @ quoted (strip name_part) @ '' on line '' @ show_nat (pc + 1)
                    @ ''.'') st2)) = Ret variables1 s"
        by (blast dest!: bind_res_Ret)
      then show ?thesis
        using False by (auto split: if_splits dest: assign_Ret)
    qed
  }
qed

theorem null_assignment_rejected_witness:
  "execute (tiny_host []) (Suc (Suc 0)) [''var x = None''] [(''x'', VInt 5)] empty_state =
     Ret (VNone, [(''x'', VInt 5)])
       (empty_state\<lparr>stdout :=
          [''Syntax Error or invalid value for variable '' @ quoted ''x'' @ '' on line 1.''
             @ [CHR 0x0A]]\<rparr>)"
proof -
  have h1: "0 < length [''var x = None'']"
    by simp
  have h2: "strip (strip_inline_comments ([''var x = None''] ! 0)) = ''var x = None''"
    by code_simp
  have h3: "kind_of (FUNCTIONS empty_state) ''var x = None'' = KVar"
    by code_simp
  have h4: "split_first (CHR ''='') (drop 4 ''var x = None'') = Some (''x '', '' None'')"
    by code_simp
  have h5: "known_call (FUNCTIONS empty_state) (strip '' None'') = None"
    by code_simp
  have h6: "substitute_vars (tiny_host []) (Suc 0) (strip '' None'') [(''x'', VInt 5)] empty_state
              = Ret ''None'' empty_state"
    by code_simp
  have h7: "safe_eval (tiny_host []) (vata_rewrite ''None'') [(''x'', VInt 5)] empty_state
              = Ret VNone empty_state"
    by code_simp
  note c = null_assignment_rejected [where exec = "execute (tiny_host []) (Suc 0)",
      OF h1 h2 h3 h4 h5, THEN conjunct1, rule_format, OF h6 h7]
  have main: "run_lines (tiny_host []) (execute (tiny_host []) (Suc 0)) (Suc 0) [''var x = None'']
                0 [(''x'', VInt 5)] empty_state =
     Ret (VNone, [(''x'', VInt 5)])
       (empty_state\<lparr>stdout :=
          [''Syntax Error or invalid value for variable '' @ quoted ''x'' @ '' on line 1.''
             @ [CHR 0x0A]]\<rparr>)"
    by (subst c) code_simp
  show ?thesis
    by (subst execute.simps(2)) (rule main)
qed

subsection \<open>Module Loader\<close>



subsection \<open>The steal statement\<close>

text \<open>
  C8. A line \<open>steal SYMBOL from PATH\<close> loads the module and looks the symbol up in the module's
  variables first, then in its functions, then in its classes; the first that has it gives the
  one binding that is copied, into the caller's variables, function registry or class registry.
  When none has it the import error is printed; when the file is missing, the
  module-file-not-found error; an exception of the module derived from \<open>Exception\<close> is printed
  as an import error. In all these cases the invocation goes on at the next line.
\<close>

theorem steal_resolution_order:
  assumes "pc < length lines"
    and "strip (strip_inline_comments (lines ! pc)) = original_line"
    and "startswith original_line ''steal ''"
    and "steal_match original_line = Some (symbol, module_path)"
  shows "run_lines h exec k lines pc variables st =
     (case load_module h exec module_path st of
        NoResult \<Rightarrow> NoResult
      | Ret (mod_vars, mod_funcs, mod_classes) st1 \<Rightarrow>
          (case map_of mod_vars symbol of
             Some v \<Rightarrow> run_lines h exec k lines (pc + 1) (AList.update symbol v variables) st1
           | None \<Rightarrow>
               (case map_of mod_funcs symbol of
                  Some f \<Rightarrow>
                    run_lines h exec k lines (pc + 1) variables
                      (st1\<lparr>FUNCTIONS := AList.update symbol f (FUNCTIONS st1)\<rparr>)
                | None \<Rightarrow>
                    (case map_of mod_classes symbol of
                       Some c \<Rightarrow>
                         run_lines h exec k lines (pc + 1) variables
                           (st1\<lparr>CLASSES := AList.update symbol c (CLASSES st1)\<rparr>)
                     | None \<Rightarrow>
                         run_lines h exec k lines (pc + 1) variables
                           (print_line (''Import Error on line '' @ show_nat (pc + 1) @ '': ''
                              @ quoted symbol @ '' not found in '' @ module_path @ ''.'') st1))))
      | Raise e st1 \<Rightarrow>
          if e = FileNotFoundError then
            run_lines h exec k lines (pc + 1) variables
              (print_line (''Import Error on line '' @ show_nat (pc + 1) @ '': Module file ''
                 @ quoted module_path @ '' not found.'') st1)
          else if is_Exception e then
            run_lines h exec k lines (pc + 1) variables
              (print_line (''Import Error on line '' @ show_nat (pc + 1) @ '': '' @ exc_str e) st1)
          else Raise e st1)"
proof -
  have ne: "original_line \<noteq> []"
    using assms(3) by (rule startswith_nonempty)
  have el: "exec_line h exec k lines pc original_line variables st =
              next_of (exec_steal h exec pc original_line variables st)"
    using kind_of_steal [OF assms(3)] by (simp add: exec_line_def)
  show ?thesis
    unfolding run_lines_next [OF assms(1,2) ne el]
    by (simp add: exec_steal_def assms(4) split: res.split option.split prod.split)
qed

theorem steal_resolution_order_witness:
  "execute (tiny_host [(''m.mslash'', [''var v = 3'', ''func v()'', ''endfunc''])]) (Suc (Suc 0))
     [''steal v from m.mslash'', ''steal w from m.mslash'', ''steal v from no.mslash''] []
     empty_state
   = Ret (VNone, [(''v'', VInt 3)])
       (empty_state\<lparr>stdout :=
          [''Import Error on line 2: '' @ quoted ''w'' @ '' not found in m.mslash.''
             @ [CHR 0x0A],
           ''Import Error on line 3: Module file '' @ quoted ''no.mslash'' @ '' not found.''
             @ [CHR 0x0A]]\<rparr>)"
proof -
  have h1: "0 < length [''steal v from m.mslash'', ''steal w from m.mslash'',
                         ''steal v from no.mslash'']"
    by simp
  have h2: "strip (strip_inline_comments
              ([''steal v from m.mslash'', ''steal w from m.mslash'',
                ''steal v from no.mslash''] ! 0)) = ''steal v from m.mslash''"
    by code_simp
  have h3: "startswith ''steal v from m.mslash'' ''steal ''"
    by code_simp
  have h4: "steal_match ''steal v from m.mslash'' = Some (''v'', ''m.mslash'')"
    by code_simp
  note c = steal_resolution_order
    [where h = "tiny_host [(''m.mslash'', [''var v = 3'', ''func v()'', ''endfunc''])]"
       and exec = "execute (tiny_host [(''m.mslash'', [''var v = 3'', ''func v()'', ''endfunc''])])
                     (Suc 0)"
       and k = "Suc 0" and variables = "[]" and st = empty_state,
     OF h1 h2 h3 h4]
  have main: "run_lines (tiny_host [(''m.mslash'', [''var v = 3'', ''func v()'', ''endfunc''])])
      (execute (tiny_host [(''m.mslash'', [''var v = 3'', ''func v()'', ''endfunc''])]) (Suc 0))
      (Suc 0)
      [''steal v from m.mslash'', ''steal w from m.mslash'', ''steal v from no.mslash''] 0 []
      empty_state
   = Ret (VNone, [(''v'', VInt 3)])
       (empty_state\<lparr>stdout :=
          [''Import Error on line 2: '' @ quoted ''w'' @ '' not found in m.mslash.''
             @ [CHR 0x0A],
           ''Import Error on line 3: Module file '' @ quoted ''no.mslash'' @ '' not found.''
             @ [CHR 0x0A]]\<rparr>)"
    by (subst c) code_simp
  show ?thesis
    by (subst execute.simps(2)) (rule main)
qed

subsection \<open>Auxiliary facts on blocks\<close>



lemma run_lines_jump_pair:
  assumes "pc < length lines"
    and "strip (strip_inline_comments (lines ! pc)) = original_line"
    and "original_line \<noteq> []"
    and "exec_line h exec k lines pc original_line variables st =
           bind_res r (\<lambda>(rv, variables1) st1. Ret (Jump block_end variables1) st1)"
  shows "run_lines h exec k lines pc variables st =
           bind_res r
             (\<lambda>(rv, variables1) st1. run_lines h exec k lines (block_end + 1) variables1 st1)"
proof (cases r)
  case (Ret a s)
  obtain rv v where "a = (rv, v)"
    by (cases a) auto
  then show ?thesis
    using Ret assms(4) by (simp add: run_lines_at [OF assms(1-3)])
qed (use assms(4) in \<open>simp_all add: run_lines_at [OF assms(1-3)]\<close>)


lemma run_lines_loop:
  assumes "pc < length lines"
    and "strip (strip_inline_comments (lines ! pc)) = original_line"
    and "kind_of (FUNCTIONS st) original_line = KLoop"
    and "substitute_vars h k original_line variables st = Ret line st1"
    and "loop_count h line = Some n_times"
    and "scan_loop (drop (pc + 1) lines) (pc + 1) 0 = Some loop_body_end"
  shows "run_lines h exec k lines pc variables st =
           bind_res (loop_times exec (slice lines (pc + 1) loop_body_end) variables (nat n_times) st1)
             (\<lambda>u st2. run_lines h exec k lines (loop_body_end + 1) variables st2)"
proof -
  have ne: "original_line \<noteq> []"
    using assms(3) kind_nonempty by blast
  have el: "exec_line h exec k lines pc original_line variables st =
              bind_res (loop_times exec (slice lines (pc + 1) loop_body_end) variables
                          (nat n_times) st1)
                (\<lambda>u st2. Ret (Jump loop_body_end ((\<lambda>u. variables) u)) st2)"
    using assms(3-6) by (simp add: exec_line_def exec_loop_def)
  show ?thesis
    using run_lines_jump [OF assms(1,2) ne el] by simp
qed


subsection \<open>Counted loops\<close>



subsection \<open>Conditional blocks\<close>

text \<open>
  C4. An \<open>if\<close> statement whose condition has been evaluated, whose closer is found and
  whose condition value can be formatted for the debug message: when the value is truthy, the
  lines between the opener and the \<open>else\<close> (the \<open>endif\<close> if there is none) run on the caller's
  variables, and the invocation goes on behind the \<open>endif\<close> with the variables the branch
  leaves; when it is not, the same holds for the lines between \<open>else\<close> and \<open>endif\<close>, and without
  an \<open>else\<close> nothing runs.
\<close>

theorem if_branch_shares_environment:
  assumes "pc < length lines"
    and "strip (strip_inline_comments (lines ! pc)) = original_line"
    and "kind_of (FUNCTIONS st) original_line = KIf"
    and "substitute_vars h k original_line variables st = Ret line st1"
    and "safe_eval h (drop 3 line) variables st1 = Ret result st2"
    and "scan_if (drop (pc + 1) lines) (pc + 1) 0 None = Some (else_pos, endif_pos)"
    and "dbg h [result] st2 = Ret () st2"
  shows "(truthy (heap st2) result \<longrightarrow>
            run_lines h exec k lines pc variables st =
              bind_res
                (exec (slice lines (pc + 1) (case else_pos of Some e \<Rightarrow> e | None \<Rightarrow> endif_pos))
                   variables st2)
                (\<lambda>(rv, variables1) st3. run_lines h exec k lines (endif_pos + 1) variables1 st3))
       \<and> (\<not> truthy (heap st2) result \<longrightarrow>
            (\<forall>e. else_pos = Some e \<longrightarrow>
               run_lines h exec k lines pc variables st =
                 bind_res (exec (slice lines (e + 1) endif_pos) variables st2)
                   (\<lambda>(rv, variables1) st3.
                      run_lines h exec k lines (endif_pos + 1) variables1 st3))
            \<and> (else_pos = None \<longrightarrow>
                 run_lines h exec k lines pc variables st =
                   run_lines h exec k lines (endif_pos + 1) variables st2))"
proof -
  have ne: "original_line \<noteq> []"
    using assms(3) kind_nonempty by blast
  have el: "exec_line h exec k lines pc original_line variables st =
      (if truthy (heap st2) result then
         bind_res
           (exec (slice lines (pc + 1) (case else_pos of Some e \<Rightarrow> e | None \<Rightarrow> endif_pos))
              variables st2)
           (\<lambda>(rv, variables1) st4. Ret (Jump endif_pos variables1) st4)
       else
         (case else_pos of
            Some e \<Rightarrow>
              bind_res (exec (slice lines (e + 1) endif_pos) variables st2)
                (\<lambda>(rv, variables1) st4. Ret (Jump endif_pos variables1) st4)
          | None \<Rightarrow> Ret (Jump endif_pos variables) st2))"
    using assms(3-7) by (simp add: exec_line_def exec_if_def)
  show ?thesis
  proof (intro conjI impI allI)
    assume t: "truthy (heap st2) result"
    have "exec_line h exec k lines pc original_line variables st =
           bind_res
             (exec (slice lines (pc + 1) (case else_pos of Some e \<Rightarrow> e | None \<Rightarrow> endif_pos))
                variables st2)
             (\<lambda>(rv, variables1) st4. Ret (Jump endif_pos variables1) st4)"
      using el t by simp
    then show "run_lines h exec k lines pc variables st =
              bind_res
                (exec (slice lines (pc + 1) (case else_pos of Some e \<Rightarrow> e | None \<Rightarrow> endif_pos))
                   variables st2)
                (\<lambda>(rv, variables1) st3. run_lines h exec k lines (endif_pos + 1) variables1 st3)"
      by (rule run_lines_jump_pair [OF assms(1,2) ne])
  next
    fix e
    assume f: "\<not> truthy (heap st2) result" and ep: "else_pos = Some e"
    have "exec_line h exec k lines pc original_line variables st =
           bind_res (exec (slice lines (e + 1) endif_pos) variables st2)
             (\<lambda>(rv, variables1) st4. Ret (Jump endif_pos variables1) st4)"
      using el f ep by simp
    then show "run_lines h exec k lines pc variables st =
                 bind_res (exec (slice lines (e + 1) endif_pos) variables st2)
                   (\<lambda>(rv, variables1) st3.
                      run_lines h exec k lines (endif_pos + 1) variables1 st3)"
      by (rule run_lines_jump_pair [OF assms(1,2) ne])
  next
    assume f: "\<not> truthy (heap st2) result" and ep: "else_pos = None"
    have "exec_line h exec k lines pc original_line variables st =
            Ret (Jump endif_pos variables) st2"
      using el f ep by simp
    then show "run_lines h exec k lines pc variables st =
                   run_lines h exec k lines (endif_pos + 1) variables st2"
      by (simp add: run_lines_at [OF assms(1,2) ne])
  qed
qed

theorem if_branch_shares_environment_witness:
  "execute (tiny_host []) (Suc (Suc 0))
     [''if True'', ''var y = 5'', ''else'', ''var y = 6'', ''endif'', ''say y''] [] empty_state
   = Ret (VNone, [(''y'', VInt 5)]) (empty_state\<lparr>stdout := [''5'' @ [CHR 0x0A]]\<rparr>)"
proof -
  have h1: "0 < length [''if True'', ''var y = 5'', ''else'', ''var y = 6'', ''endif'',
                         ''say y'']"
    by simp
  have h2: "strip (strip_inline_comments
              ([''if True'', ''var y = 5'', ''else'', ''var y = 6'', ''endif'', ''say y''] ! 0))
            = ''if True''"
    by code_simp
  have h3: "kind_of (FUNCTIONS empty_state) ''if True'' = KIf"
    by code_simp
  have h4: "substitute_vars (tiny_host []) (Suc 0) ''if True'' [] empty_state
              = Ret ''if True'' empty_state"
    by code_simp
  have h5: "safe_eval (tiny_host []) (drop 3 ''if True'') [] empty_state
              = Ret (VBool True) empty_state"
    by code_simp
  have h6: "scan_if (drop (0 + 1)
                       [''if True'', ''var y = 5'', ''else'', ''var y = 6'', ''endif'', ''say y''])
              (0 + 1) 0 None = Some (Some 2, 4)"
    by code_simp
  have h7: "dbg (tiny_host []) [VBool True] empty_state = Ret () empty_state"
    by code_simp
  have h8: "truthy (heap empty_state) (VBool True)"
    by code_simp
  note c = if_branch_shares_environment
    [where exec = "execute (tiny_host []) (Suc 0)", OF h1 h2 h3 h4 h5 h6 h7,
     THEN conjunct1, THEN mp, OF h8]
  have main: "run_lines (tiny_host []) (execute (tiny_host []) (Suc 0)) (Suc 0)
     [''if True'', ''var y = 5'', ''else'', ''var y = 6'', ''endif'', ''say y''] 0 [] empty_state
   = Ret (VNone, [(''y'', VInt 5)]) (empty_state\<lparr>stdout := [''5'' @ [CHR 0x0A]]\<rparr>)"
    by (subst c) code_simp
  show ?thesis
    by (subst execute.simps(2)) (rule main)
qed

subsection \<open>The store is shared by the iterations of a loop\<close>

text \<open>
  C10. The iterations of a loop copy the variables, not the store: the state the first
  iteration reaches is the state the remaining ones start from, and the state the last one
  reaches is the caller's after the loop. In the example, an instance is bound to \<open>p\<close> and the
  body calls \<open>p.bump()\<close>, which sets the attribute \<open>m\<close> when the attribute \<open>n\<close> is set and then
  sets \<open>n\<close>: after two iterations the caller's instance has both, so the second iteration has
  seen what the first wrote.
\<close>

theorem loop_shares_store:
  assumes "pc < length lines"
    and "strip (strip_inline_comments (lines ! pc)) = original_line"
    and "kind_of (FUNCTIONS st) original_line = KLoop"
    and "substitute_vars h k original_line variables st = Ret line st1"
    and "loop_count h line = Some n_times"
    and "scan_loop (drop (pc + 1) lines) (pc + 1) 0 = Some loop_body_end"
    and "nat n_times = Suc t"
    and "exec (slice lines (pc + 1) loop_body_end) variables st1 = Ret r st2"
  shows "run_lines h exec k lines pc variables st =
           bind_res (loop_times exec (slice lines (pc + 1) loop_body_end) variables t st2)
             (\<lambda>u st3. run_lines h exec k lines (loop_body_end + 1) variables st3)"
  unfolding run_lines_loop [OF assms(1-6)]
  using assms(7,8) by simp

theorem loop_shares_store_witness:
  "execute (tiny_host []) (Suc (Suc (Suc (Suc 0))))
     [''loop 2'', ''p.bump()'', ''endloop''] [(''p'', VRef 0)]
     (empty_state\<lparr>CLASSES :=
        [(''K'', \<lparr>methods =
           [(''bump'', \<lparr>args = [],
               body = [''if n'', ''var this.m = 1'', ''endif'', ''var this.n = 1'']\<rparr>)]\<rparr>)],
        heap := [Instance (Some (VStr ''K'')) (Attributes [])]\<rparr>)
   = Ret (VNone, [(''p'', VRef 0)])
       (empty_state\<lparr>CLASSES :=
          [(''K'', \<lparr>methods =
             [(''bump'', \<lparr>args = [],
                 body = [''if n'', ''var this.m = 1'', ''endif'', ''var this.n = 1'']\<rparr>)]\<rparr>)],
          heap := [Instance (Some (VStr ''K''))
                     (Attributes [(''n'', VInt 1), (''m'', VInt 1)])]\<rparr>)"
proof -
  have h1: "0 < length [''loop 2'', ''p.bump()'', ''endloop'']"
    by simp
  have h2: "strip (strip_inline_comments ([''loop 2'', ''p.bump()'', ''endloop''] ! 0))
            = ''loop 2''"
    by code_simp
  have h3: "kind_of (FUNCTIONS (empty_state\<lparr>CLASSES :=
        [(''K'', \<lparr>methods =
           [(''bump'', \<lparr>args = [],
               body = [''if n'', ''var this.m = 1'', ''endif'', ''var this.n = 1'']\<rparr>)]\<rparr>)],
        heap := [Instance (Some (VStr ''K'')) (Attributes [])]\<rparr>)) ''loop 2'' = KLoop"
    by code_simp
  have h4: "substitute_vars (tiny_host []) (Suc (Suc (Suc 0))) ''loop 2'' [(''p'', VRef 0)]
      (empty_state\<lparr>CLASSES :=
        [(''K'', \<lparr>methods =
           [(''bump'', \<lparr>args = [],
               body = [''if n'', ''var this.m = 1'', ''endif'', ''var this.n = 1'']\<rparr>)]\<rparr>)],
        heap := [Instance (Some (VStr ''K'')) (Attributes [])]\<rparr>)
     = Ret ''loop 2''
      (empty_state\<lparr>CLASSES :=
        [(''K'', \<lparr>methods =
           [(''bump'', \<lparr>args = [],
               body = [''if n'', ''var this.m = 1'', ''endif'', ''var this.n = 1'']\<rparr>)]\<rparr>)],
        heap := [Instance (Some (VStr ''K'')) (Attributes [])]\<rparr>)"
    by code_simp
  have h5: "loop_count (tiny_host []) ''loop 2'' = Some 2"
    by code_simp
  have h6: "scan_loop (drop (0 + 1) [''loop 2'', ''p.bump()'', ''endloop'']) (0 + 1) 0 = Some 2"
    by code_simp
  have h7: "nat 2 = Suc (Suc 0)"
    by simp
  have h8: "execute (tiny_host []) (Suc (Suc (Suc 0)))
      (slice [''loop 2'', ''p.bump()'', ''endloop''] (0 + 1) 2) [(''p'', VRef 0)]
      (empty_state\<lparr>CLASSES :=
        [(''K'', \<lparr>methods =
           [(''bump'', \<lparr>args = [],
               body = [''if n'', ''var this.m = 1'', ''endif'', ''var this.n = 1'']\<rparr>)]\<rparr>)],
        heap := [Instance (Some (VStr ''K'')) (Attributes [])]\<rparr>)
     = Ret (VNone, [(''p'', VRef 0)])
      (empty_state\<lparr>CLASSES :=
        [(''K'', \<lparr>methods =
           [(''bump'', \<lparr>args = [],
               body = [''if n'', ''var this.m = 1'', ''endif'', ''var this.n = 1'']\<rparr>)]\<rparr>)],
        heap := [Instance (Some (VStr ''K'')) (Attributes [(''n'', VInt 1)])]\<rparr>)"
    by code_simp
  note c = loop_shares_store
    [where exec = "execute (tiny_host []) (Suc (Suc (Suc 0)))", OF h1 h2 h3 h4 h5 h6 h7 h8]
  have main: "run_lines (tiny_host []) (execute (tiny_host []) (Suc (Suc (Suc 0))))
     (Suc (Suc (Suc 0))) [''loop 2'', ''p.bump()'', ''endloop''] 0 [(''p'', VRef 0)]
     (empty_state\<lparr>CLASSES :=
        [(''K'', \<lparr>methods =
           [(''bump'', \<lparr>args = [],
               body = [''if n'', ''var this.m = 1'', ''endif'', ''var this.n = 1'']\<rparr>)]\<rparr>)],
        heap := [Instance (Some (VStr ''K'')) (Attributes [])]\<rparr>)
   = Ret (VNone, [(''p'', VRef 0)])
       (empty_state\<lparr>CLASSES :=
          [(''K'', \<lparr>methods =
             [(''bump'', \<lparr>args = [],
                 body = [''if n'', ''var this.m = 1'', ''endif'', ''var this.n = 1'']\<rparr>)]\<rparr>)],
          heap := [Instance (Some (VStr ''K''))
                     (Attributes [(''n'', VInt 1), (''m'', VInt 1)])]\<rparr>)"
    by (subst c) code_simp
  show ?thesis
    by (subst execute.simps(2)) (rule main)
qed

subsection \<open>Calls and the caller's variables\<close>









end
